theory Spec2Isabelle
  imports Main "HOL-Library.Word"
begin

unbundle bit_operations_syntax

section \<open>Data model\<close>

text \<open>
  A Python \<open>str\<close> is a sequence of Unicode code points, so it is modelled as a list of
  natural numbers; \<open>len\<close> is \<open>length\<close>. A Python \<open>bytes\<close> value is a list of 8-bit
  words. \<open>py\<close> embeds an ASCII literal of the source.
\<close>

type_synonym pystr = "nat list"
type_synonym byte = "8 word"

definition py :: "string \<Rightarrow> pystr" where
  "py s = map of_char s"

text \<open>Python exceptions that the modelled code can raise or let through.\<close>

datatype exn =
    UcError int
  | QlMemoryError
  | TypeError
  | ArgumentError
  | IndexError
  | UnicodeEncodeError
  | OtherException

subsection \<open>Call ledger (\<open>QlOsUtils.__init__\<close>, utils.py 28-34)\<close>

text \<open>
  One entry of \<open>self.syscalls[name]\<close>: the dictionary literal built in \<open>_call_api\<close>.
  Parameter mappings and return values are arbitrary Python objects (type variables).
\<close>

record ('p, 'r) call_record =
  params :: 'p
  retval :: 'r
  address :: int
  retaddr :: int
  position :: int

record ('p, 'r) QlOsUtils =
  syscalls :: "pystr \<rightharpoonup> ('p, 'r) call_record list"
  syscalls_counter :: int
  appeared_strings :: "pystr \<rightharpoonup> int set"

text \<open>\<open>clear_syscalls\<close> (utils.py 36-42).\<close>

definition clear_syscalls :: "('p, 'r) QlOsUtils \<Rightarrow> ('p, 'r) QlOsUtils" where
  "clear_syscalls self =
     self\<lparr>syscalls := Map.empty, syscalls_counter := 0, appeared_strings := Map.empty\<rparr>"

text \<open>\<open>str.startswith\<close> and the prefix stripping \<open>name[5:]\<close> of \<open>_call_api\<close>.\<close>

definition startswith :: "pystr \<Rightarrow> pystr \<Rightarrow> bool" where
  "startswith s p = (take (length p) s = p)"

definition strip_hook :: "pystr \<Rightarrow> pystr" where
  "strip_hook name = (if startswith name (py ''hook_'') then drop 5 name else name)"

text \<open>\<open>d.setdefault(k, [])\<close> read back: the list stored under a key, empty when absent.\<close>

definition calls_of :: "('p, 'r) QlOsUtils \<Rightarrow> pystr \<Rightarrow> ('p, 'r) call_record list" where
  "calls_of self name = (case syscalls self name of None \<Rightarrow> [] | Some l \<Rightarrow> l)"

text \<open>\<open>_call_api\<close> (utils.py 44-66).\<close>

definition call_api ::
  "int \<Rightarrow> pystr \<Rightarrow> 'p \<Rightarrow> 'r \<Rightarrow> int \<Rightarrow> ('p, 'r) QlOsUtils \<Rightarrow> ('p, 'r) QlOsUtils" where
  "call_api addr name ps rv ra self =
     (let name' = strip_hook name;
          entry = \<lparr>params = ps, retval = rv, address = addr, retaddr = ra,
                   position = syscalls_counter self\<rparr>
      in self\<lparr>syscalls := (syscalls self)(name' \<mapsto> calls_of self name' @ [entry]),
              syscalls_counter := syscalls_counter self + 1\<rparr>)"

text \<open>
  A sequence of \<open>_call_api\<close> invocations, each given as the tuple of its arguments
  \<open>(address, name, params, retval, retaddr)\<close>, performed from left to right.
\<close>

type_synonym ('p, 'r) api_call = "int \<times> pystr \<times> 'p \<times> 'r \<times> int"

definition api_name :: "('p, 'r) api_call \<Rightarrow> pystr" where
  "api_name c = strip_hook (fst (snd c))"

definition entry_of :: "('p, 'r) api_call \<Rightarrow> int \<Rightarrow> ('p, 'r) call_record" where
  "entry_of c pos =
     (case c of (addr, name, ps, rv, ra) \<Rightarrow>
        \<lparr>params = ps, retval = rv, address = addr, retaddr = ra, position = pos\<rparr>)"

definition record_call :: "('p, 'r) QlOsUtils \<Rightarrow> ('p, 'r) api_call \<Rightarrow> ('p, 'r) QlOsUtils" where
  "record_call self c = (case c of (addr, name, ps, rv, ra) \<Rightarrow> call_api addr name ps rv ra self)"

definition record_calls ::
  "('p, 'r) api_call list \<Rightarrow> ('p, 'r) QlOsUtils \<Rightarrow> ('p, 'r) QlOsUtils" where
  "record_calls cs self = foldl record_call self cs"

subsection \<open>IOCTL control code (\<open>ioctl_code\<close>, utils.py 344-345)\<close>

text \<open>Python's \<open><<\<close> and \<open>|\<close> on unbounded integers; \<open>|\<close> associates to the left.\<close>

definition ioctl_code :: "int \<Rightarrow> int \<Rightarrow> int \<Rightarrow> int \<Rightarrow> int" where
  "ioctl_code DeviceType Function Method Access =
     ((push_bit 16 DeviceType OR push_bit 14 Access) OR push_bit 2 Function) OR Method"

subsection \<open>Concrete ledger inputs used to instantiate the theorems\<close>

definition demo_calls :: "(nat, nat) api_call list" where
  "demo_calls = [(0x1000, py ''hook_CreateFileA'', 1, 0, 0x1004),
                 (0x2000, py ''ReadFile'', 2, 1, 0x2004),
                 (0x3000, py ''CreateFileA'', 3, 0, 0x3004)]"

definition demo_utils :: "(nat, nat) QlOsUtils" where
  "demo_utils = \<lparr>syscalls = Map.empty, syscalls_counter = 7, appeared_strings = Map.empty\<rparr>"

subsection \<open>Guest memory (\<open>ql.mem\<close>)\<close>

text \<open>
  Guest memory maps an address to the byte stored there, or to \<open>None\<close> where nothing is
  mapped. \<open>ql.mem.read(addr, size)\<close> and \<open>ql.mem.write(addr, data)\<close> raise \<open>UcError\<close>
  as soon as one byte of the range is unmapped (\<open>None\<close> in the model). Addresses are
  Python integers; the accessor's foreign interface reduces them modulo \<open>2 ^ 64\<close>, the model
  does not, so it describes reads and writes at addresses \<open>0 \<le> addr < 2 ^ 64\<close>.
\<close>

type_synonym memory = "int \<Rightarrow> byte option"

definition mem_cells :: "memory \<Rightarrow> int \<Rightarrow> nat \<Rightarrow> byte option list" where
  "mem_cells m addr n = map (\<lambda>i. m (addr + int i)) [0..<n]"

definition mem_read :: "memory \<Rightarrow> int \<Rightarrow> int \<Rightarrow> byte list option" where
  "mem_read m addr n =
     (if n < 0 \<or> None \<in> set (mem_cells m addr (nat n)) then None
      else Some (map the (mem_cells m addr (nat n))))"

definition mem_write :: "memory \<Rightarrow> int \<Rightarrow> byte list \<Rightarrow> memory option" where
  "mem_write m addr bs =
     (if None \<in> set (mem_cells m addr (length bs)) then None
      else Some (\<lambda>x. if addr \<le> x \<and> x < addr + int (length bs)
                      then Some (bs ! nat (x - addr)) else m x))"

text \<open>The error numbers unicorn reports for unmapped reads and writes.\<close>

definition UC_ERR_READ_UNMAPPED :: int where "UC_ERR_READ_UNMAPPED = 6"
definition UC_ERR_WRITE_UNMAPPED :: int where "UC_ERR_WRITE_UNMAPPED = 7"

subsection \<open>Python's text codecs\<close>

text \<open>
  \<open>bytes.decode(errors="ignore")\<close>: the default codec is UTF-8. CPython's decoder accepts
  only shortest-form sequences outside the surrogate range; an invalid start byte and a
  lead byte followed by an invalid continuation byte are skipped (one, two or three bytes,
  up to the offending byte), and a sequence cut off by the end of the input is dropped.
\<close>

definition is_cont :: "byte \<Rightarrow> bool" where
  "is_cont b = (0x80 \<le> b \<and> b < 0xC0)"

definition cont_bits :: "byte \<Rightarrow> nat" where
  "cont_bits b = unat b mod 64"

fun utf8_decode_ignore :: "byte list \<Rightarrow> pystr" where
  "utf8_decode_ignore [] = []"
| "utf8_decode_ignore (b0 # rest) =
     (if b0 < 0x80 then unat b0 # utf8_decode_ignore rest
      else if b0 < 0xC2 then utf8_decode_ignore rest
      else if b0 < 0xE0 then
        (case rest of
           [] \<Rightarrow> []
         | b1 # r1 \<Rightarrow>
             if is_cont b1 then ((unat b0 mod 32) * 64 + cont_bits b1) # utf8_decode_ignore r1
             else utf8_decode_ignore rest)
      else if b0 < 0xF0 then
        (case rest of
           [] \<Rightarrow> []
         | b1 # r1 \<Rightarrow>
             if \<not> is_cont b1 \<or> (if b1 < 0xA0 then b0 = 0xE0 else b0 = 0xED)
             then utf8_decode_ignore rest
             else (case r1 of
                     [] \<Rightarrow> []
                   | b2 # r2 \<Rightarrow>
                       if is_cont b2
                       then ((unat b0 mod 16) * 4096 + cont_bits b1 * 64 + cont_bits b2)
                            # utf8_decode_ignore r2
                       else utf8_decode_ignore r1))
      else if b0 < 0xF5 then
        (case rest of
           [] \<Rightarrow> []
         | b1 # r1 \<Rightarrow>
             if \<not> is_cont b1 \<or> (if b1 < 0x90 then b0 = 0xF0 else b0 = 0xF4)
             then utf8_decode_ignore rest
             else (case r1 of
                     [] \<Rightarrow> []
                   | b2 # r2 \<Rightarrow>
                       if \<not> is_cont b2 then utf8_decode_ignore r1
                       else (case r2 of
                               [] \<Rightarrow> []
                             | b3 # r3 \<Rightarrow>
                                 if is_cont b3
                                 then ((unat b0 mod 8) * 262144 + cont_bits b1 * 4096
                                       + cont_bits b2 * 64 + cont_bits b3)
                                      # utf8_decode_ignore r3
                                 else utf8_decode_ignore r2)))
      else utf8_decode_ignore rest)"

text \<open>
  \<open>str.encode\<close> (strict): a lone surrogate raises \<open>UnicodeEncodeError\<close>; numbers from
  \<open>0x110000\<close> on are not code points of a Python string.
\<close>

definition is_surrogate :: "nat \<Rightarrow> bool" where
  "is_surrogate c = (0xD800 \<le> c \<and> c < 0xE000)"

definition utf8_encode_cp :: "nat \<Rightarrow> byte list option" where
  "utf8_encode_cp c =
     (if c < 0x80 then Some [of_nat c]
      else if c < 0x800 then Some [of_nat (0xC0 + c div 64), of_nat (0x80 + c mod 64)]
      else if c < 0x10000 then
        (if is_surrogate c then None
         else Some [of_nat (0xE0 + c div 4096), of_nat (0x80 + c div 64 mod 64),
                    of_nat (0x80 + c mod 64)])
      else if c < 0x110000 then
        Some [of_nat (0xF0 + c div 262144), of_nat (0x80 + c div 4096 mod 64),
              of_nat (0x80 + c div 64 mod 64), of_nat (0x80 + c mod 64)]
      else None)"

definition utf16le_unit :: "nat \<Rightarrow> byte list" where
  "utf16le_unit u = [of_nat (u mod 256), of_nat (u div 256)]"

definition utf16le_encode_cp :: "nat \<Rightarrow> byte list option" where
  "utf16le_encode_cp c =
     (if c < 0x10000 then (if is_surrogate c then None else Some (utf16le_unit c))
      else if c < 0x110000 then
        Some (utf16le_unit (0xD800 + (c - 0x10000) div 1024)
              @ utf16le_unit (0xDC00 + (c - 0x10000) mod 1024))
      else None)"

fun encode_with :: "(nat \<Rightarrow> byte list option) \<Rightarrow> pystr \<Rightarrow> byte list option" where
  "encode_with f [] = Some []"
| "encode_with f (c # cs) =
     (case f c of
        None \<Rightarrow> None
      | Some b \<Rightarrow> (case encode_with f cs of None \<Rightarrow> None | Some bs \<Rightarrow> Some (b @ bs)))"

datatype encoding = UTF8 | UTF16LE

definition encode :: "encoding \<Rightarrow> pystr \<Rightarrow> byte list option" where
  "encode enc s =
     (case enc of UTF8 \<Rightarrow> encode_with utf8_encode_cp s
                | UTF16LE \<Rightarrow> encode_with utf16le_encode_cp s)"

subsection \<open>Python string operations used by the source\<close>

text \<open>\<open>s.split(sep)\<close> for a one-character separator: the result is never empty.\<close>

fun py_split :: "nat \<Rightarrow> pystr \<Rightarrow> pystr list" where
  "py_split sep [] = [[]]"
| "py_split sep (c # cs) =
     (if c = sep then [] # py_split sep cs
      else (case py_split sep cs of [] \<Rightarrow> [[c]] | t # ts \<Rightarrow> (c # t) # ts))"

text \<open>
  \<open>s.replace(old, new)\<close>: non-overlapping occurrences, scanned from the left; an empty
  \<open>old\<close> matches before every character and at the end.
\<close>

function py_replace :: "pystr \<Rightarrow> pystr \<Rightarrow> pystr \<Rightarrow> pystr" where
  "py_replace old new s =
     (if old = [] then new @ concat (map (\<lambda>c. c # new) s)
      else if s = [] then []
      else if take (length old) s = old then new @ py_replace old new (drop (length old) s)
      else hd s # py_replace old new (tl s))"
  by pat_completeness auto
termination
  by (relation "measure (\<lambda>(old, new, s). length s)") auto

declare py_replace.simps [simp del]

subsection \<open>String appearance index and guest strings (utils.py 68-106)\<close>

definition positions_of :: "('p, 'r) QlOsUtils \<Rightarrow> pystr \<Rightarrow> int set" where
  "positions_of self token = (case appeared_strings self token of None \<Rightarrow> {} | Some S \<Rightarrow> S)"

definition add_appearance :: "('p, 'r) QlOsUtils \<Rightarrow> pystr \<Rightarrow> ('p, 'r) QlOsUtils" where
  "add_appearance self token =
     self\<lparr>appeared_strings :=
            (appeared_strings self)(token \<mapsto> insert (syscalls_counter self) (positions_of self token))\<rparr>"

definition string_appearance :: "pystr \<Rightarrow> ('p, 'r) QlOsUtils \<Rightarrow> ('p, 'r) QlOsUtils" where
  "string_appearance s self = foldl add_appearance self (py_split 32 s)"

text \<open>
  \<open>read_string\<close>: the \<open>while\<close> loop has no bound of its own, so it is a partial function;
  \<open>None\<close> is the loop that never ends, \<open>Some (Inl e)\<close> the exception of a read outside
  mapped memory.
\<close>

partial_function (option) read_string_loop ::
  "memory \<Rightarrow> int \<Rightarrow> pystr \<Rightarrow> pystr \<Rightarrow> (exn + pystr) option" where
  "read_string_loop m addr terminator result =
     (case mem_read m addr (int (length terminator)) of
        None \<Rightarrow> Some (Inl (UcError UC_ERR_READ_UNMAPPED))
      | Some char \<Rightarrow>
          if utf8_decode_ignore char = terminator then Some (Inr result)
          else read_string_loop m (addr + int (length terminator)) terminator
                 (result @ utf8_decode_ignore char))"

definition read_string :: "memory \<Rightarrow> int \<Rightarrow> pystr \<Rightarrow> (exn + pystr) option" where
  "read_string m addr terminator = read_string_loop m addr terminator []"

definition read_wstring ::
  "memory \<Rightarrow> int \<Rightarrow> ('p, 'r) QlOsUtils \<Rightarrow> (exn + pystr \<times> ('p, 'r) QlOsUtils) option" where
  "read_wstring m addr self =
     (case read_string m addr [0, 0] of
        None \<Rightarrow> None
      | Some (Inl e) \<Rightarrow> Some (Inl e)
      | Some (Inr s) \<Rightarrow>
          (let s' = py_replace [0] [] s in Some (Inr (s', string_appearance s' self))))"

definition read_cstring ::
  "memory \<Rightarrow> int \<Rightarrow> ('p, 'r) QlOsUtils \<Rightarrow> (exn + pystr \<times> ('p, 'r) QlOsUtils) option" where
  "read_cstring m addr self =
     (case read_string m addr [0] of
        None \<Rightarrow> None
      | Some (Inl e) \<Rightarrow> Some (Inl e)
      | Some (Inr s) \<Rightarrow> Some (Inr (s, string_appearance s self)))"

text \<open>A guest buffer: memory \<open>m\<close> holds the bytes \<open>bs\<close> from address \<open>addr\<close> on.\<close>

definition holds_bytes :: "memory \<Rightarrow> int \<Rightarrow> byte list \<Rightarrow> bool" where
  "holds_bytes m addr bs = (mem_read m addr (int (length bs)) = Some bs)"

subsection \<open>Concrete guest memories used to instantiate the theorems\<close>

definition hello_mem :: memory where
  "hello_mem = (\<lambda>x. if 0x4000 \<le> x \<and> x < 0x4006
                     then Some ([0x68, 0x65, 0x6C, 0x6C, 0x6F, 0x00] ! nat (x - 0x4000)) else None)"

definition wide_ab_mem :: memory where
  "wide_ab_mem = (\<lambda>x. if 0x5000 \<le> x \<and> x < 0x5006
                       then Some ([0x61, 0x00, 0x62, 0x00, 0x00, 0x00] ! nat (x - 0x5000)) else None)"

definition wide_amacron_mem :: memory where
  "wide_amacron_mem = (\<lambda>x. if 0x5000 \<le> x \<and> x < 0x5004
                            then Some ([0x00, 0x01, 0x00, 0x00] ! nat (x - 0x5000)) else None)"

text \<open>The bytes of an ASCII text as 16-bit little-endian units: low byte, then zero.\<close>

definition wide_units :: "pystr \<Rightarrow> byte list" where
  "wide_units cs = concat (map (\<lambda>c. [of_nat c, 0]) cs)"

subsection \<open>Formatted output (utils.py 159-191)\<close>

text \<open>
  An element of the variadic argument list: an integer as fetched by \<open>va_list\<close>, or the
  string that \<open>__common_printf\<close> puts in its place.
\<close>

datatype fmtarg = ArgInt int | ArgStr pystr

text \<open>
  \<open>out % tuple(args)\<close> is Python's built-in formatting operator, not code of this
  repository: its handling of a format that contains a conversion is the parameter
  \<open>conv\<close>. A format without \<open>%\<close> is returned as it is when the tuple is empty, and
  raises \<open>TypeError\<close> (not all arguments converted) otherwise.
\<close>

type_synonym formatter = "pystr \<Rightarrow> fmtarg list \<Rightarrow> exn + pystr"

definition py_format :: "formatter \<Rightarrow> pystr \<Rightarrow> fmtarg list \<Rightarrow> exn + pystr" where
  "py_format conv fmt args =
     (if 37 \<in> set fmt then conv fmt args
      else if args = [] then Inr fmt
      else Inl TypeError)"

text \<open>
  The loop \<open>for i, f in enumerate(fmtstr)\<close> of \<open>__common_printf\<close>; \<open>rd\<close> is the bound
  method \<open>read_wstring\<close> or \<open>read_cstring\<close>. \<open>args[i]\<close> raises \<open>IndexError\<close> past the end
  of the list, and the memory read raises \<open>ctypes.ArgumentError\<close> when handed a string.
\<close>

fun deref_strings ::
  "(int \<Rightarrow> ('p, 'r) QlOsUtils \<Rightarrow> (exn + pystr \<times> ('p, 'r) QlOsUtils) option) \<Rightarrow>
   nat \<Rightarrow> pystr list \<Rightarrow> fmtarg list \<Rightarrow> ('p, 'r) QlOsUtils \<Rightarrow>
   (exn + fmtarg list \<times> ('p, 'r) QlOsUtils) option" where
  "deref_strings rd i [] args self = Some (Inr (args, self))"
| "deref_strings rd i (f # fs) args self =
     (if startswith f (py ''s'') then
        (if i < length args then
           (case args ! i of
              ArgInt a \<Rightarrow>
                (case rd a self of
                   None \<Rightarrow> None
                 | Some (Inl e) \<Rightarrow> Some (Inl e)
                 | Some (Inr (s, self')) \<Rightarrow>
                     deref_strings rd (Suc i) fs (args[i := ArgStr s]) self')
            | ArgStr s \<Rightarrow> Some (Inl ArgumentError))
         else Some (Inl IndexError))
      else deref_strings rd (Suc i) fs args self)"

definition common_printf ::
  "formatter \<Rightarrow> memory \<Rightarrow> pystr \<Rightarrow> fmtarg list \<Rightarrow> bool \<Rightarrow> ('p, 'r) QlOsUtils \<Rightarrow>
   (exn + pystr \<times> ('p, 'r) QlOsUtils) option" where
  "common_printf conv m format args wstring self =
     (let fmtstr = tl (py_split 37 format);
          rd = (if wstring then read_wstring m else read_cstring m)
      in case deref_strings rd 0 fmtstr args self of
           None \<Rightarrow> None
         | Some (Inl e) \<Rightarrow> Some (Inl e)
         | Some (Inr (args', self')) \<Rightarrow>
             (let out = py_replace (py ''%llx'') (py ''%x'') format;
                  out = py_replace (py ''%p'') (py ''%#x'') out
              in case py_format conv out args' of
                   Inl e \<Rightarrow> Some (Inl e)
                 | Inr text \<Rightarrow> Some (Inr (text, self'))))"

text \<open>\<open>sprintf\<close>: the result is the returned count, the guest memory and the object.\<close>

definition sprintf ::
  "formatter \<Rightarrow> memory \<Rightarrow> int \<Rightarrow> pystr \<Rightarrow> fmtarg list \<Rightarrow> bool \<Rightarrow> ('p, 'r) QlOsUtils \<Rightarrow>
   (exn + int \<times> memory \<times> ('p, 'r) QlOsUtils) option" where
  "sprintf conv m buff format args wstring self =
     (case common_printf conv m format args wstring self of
        None \<Rightarrow> None
      | Some (Inl e) \<Rightarrow> Some (Inl e)
      | Some (Inr (out, self')) \<Rightarrow>
          (let enc = (if wstring then UTF16LE else UTF8)
           in case encode enc (out @ [0]) of
                None \<Rightarrow> Some (Inl UnicodeEncodeError)
              | Some bs \<Rightarrow>
                  (case mem_write m buff bs of
                     None \<Rightarrow> Some (Inl (UcError UC_ERR_WRITE_UNMAPPED))
                   | Some m' \<Rightarrow> Some (Inr (int (length out), m', self')))))"

text \<open>
  \<open>printf\<close>: \<open>ql.os.stdout\<close> is the list of the bytes written to it so far; the result is
  the returned count, the stream and the object.
\<close>

definition printf ::
  "formatter \<Rightarrow> memory \<Rightarrow> byte list \<Rightarrow> pystr \<Rightarrow> fmtarg list \<Rightarrow> bool \<Rightarrow> ('p, 'r) QlOsUtils \<Rightarrow>
   (exn + int \<times> byte list \<times> ('p, 'r) QlOsUtils) option" where
  "printf conv m stdout format args wstring self =
     (case common_printf conv m format args wstring self of
        None \<Rightarrow> None
      | Some (Inl e) \<Rightarrow> Some (Inl e)
      | Some (Inr (out, self')) \<Rightarrow>
          (let enc = UTF8
           in case encode enc out of
                None \<Rightarrow> Some (Inl UnicodeEncodeError)
              | Some bs \<Rightarrow> Some (Inr (int (length out), stdout @ bs, self'))))"

text \<open>The encoded terminator \<open>'\x00'\<close> that \<open>sprintf\<close> appends.\<close>

definition nul_bytes :: "bool \<Rightarrow> byte list" where
  "nul_bytes wstring = (if wstring then [0, 0] else [0])"

text \<open>
  A mapped 16-byte buffer, the same memory after \<open>b"ok\x00"\<close> has been written to its start,
  and a formatter for formats with conversions, which the formats used below never reach.
\<close>

definition scratch_mem :: memory where
  "scratch_mem = (\<lambda>x. if 0x6000 \<le> x \<and> x < 0x6010 then Some 0xFF else None)"

definition ok_mem :: memory where
  "ok_mem = (\<lambda>x. if 0x6000 \<le> x \<and> x < 0x6003
                  then Some ([0x6F, 0x6B, 0x00] ! nat (x - 0x6000)) else scratch_mem x)"

definition no_formatter :: formatter where
  "no_formatter fmt args = Inl OtherException"

subsection \<open>Device I/O requests: configuration and collaborators\<close>

text \<open>
  The members of \<open>QL_OS\<close> and \<open>QL_ARCH\<close> (\<open>qiling.const\<close>) that the source compares against,
  and one constructor for every other member.
\<close>

datatype QL_OS = WINDOWS | OTHER_OS
datatype QL_ARCH = X8664 | OTHER_ARCH

text \<open>
  Modelled from the spec: the constants of \<open>qiling.os.windows.wdk_const\<close>, which is not
  among the source files. The spec names the major function codes WRITE and
  DEVICE_CONTROL, the buffered and direct flags of the device object, and makes the
  buffering method the low two bits of the control code; the values are those of the
  Windows driver kit.
\<close>

definition IRP_MJ_WRITE :: int where "IRP_MJ_WRITE = 0x04"
definition IRP_MJ_DEVICE_CONTROL :: int where "IRP_MJ_DEVICE_CONTROL = 0x0E"
definition DO_BUFFERED_IO :: int where "DO_BUFFERED_IO = 0x4"
definition DO_DIRECT_IO :: int where "DO_DIRECT_IO = 0x10"
definition METHOD_BUFFERED :: int where "METHOD_BUFFERED = 0"
definition METHOD_IN_DIRECT :: int where "METHOD_IN_DIRECT = 1"
definition METHOD_OUT_DIRECT :: int where "METHOD_OUT_DIRECT = 2"
definition METHOD_NEITHER :: int where "METHOD_NEITHER = 3"

text \<open>
  Modelled from the spec: the \<open>ctypes\<close> structures of \<open>qiling.os.windows.structs\<close>, which
  is not among the source files. The spec lists their attributes; here they are records of
  the fields that the source reads or assigns, and a freshly constructed structure is
  zero-filled. Each class exists in a 32-bit and a 64-bit layout; sizes, \<open>bytes(struct)\<close>
  and \<open>from_buffer\<close> belong to the layout and are parameters of the model. Field values
  are unbounded integers: the width to which a layout would cut a stored value is part of
  the layout, too.
\<close>

datatype width = W32 | W64

record IRP =
  irpstack :: int
  SystemBuffer :: int
  MdlAddress :: int
  UserBuffer :: int
  Status :: int
  Information :: int

record IO_STACK_LOCATION =
  MajorFunction :: int
  Write_Length :: int
  IoControlCode :: int
  OutputBufferLength :: int
  InputBufferLength :: int
  Type3InputBuffer :: int

record MDL =
  MappedSystemVa :: int
  StartVa :: int
  ByteOffset :: int
  ByteCount :: int

record DEVICE_OBJECT =
  Flags :: int

definition IRP_new :: IRP where
  "IRP_new = \<lparr>irpstack = 0, SystemBuffer = 0, MdlAddress = 0, UserBuffer = 0,
              Status = 0, Information = 0\<rparr>"

definition IO_STACK_LOCATION_new :: IO_STACK_LOCATION where
  "IO_STACK_LOCATION_new = \<lparr>MajorFunction = 0, Write_Length = 0, IoControlCode = 0,
              OutputBufferLength = 0, InputBufferLength = 0, Type3InputBuffer = 0\<rparr>"

definition MDL_new :: MDL where
  "MDL_new = \<lparr>MappedSystemVa = 0, StartVa = 0, ByteOffset = 0, ByteCount = 0\<rparr>"

text \<open>
  The emulator object \<open>ql\<close> as far as a request sees it: its configuration, the loader's
  driver object, the structure layouts, and the collaborators that are not part of this
  module. The collaborators act on the machine, which is the guest memory together with
  a state \<open>'x\<close> of their own (heap bookkeeping, registers, stack):
  \<^item> \<open>heap_alloc\<close> is \<open>ql.os.heap.alloc\<close> (it may map memory, and may raise);
  \<^item> \<open>heap_free\<close> is \<open>ql.os.heap.free\<close>;
  \<^item> \<open>writeParams\<close> is \<open>ql.os.fcall.writeParams\<close> after \<open>fcall_select(STDCALL)\<close>;
  \<^item> \<open>run\<close> is \<open>ql.run(entry)\<close>: the machine it leaves behind, and the exception it raised
    if any;
  \<^item> \<open>verify_ret\<close> is \<open>qiling.utils.verify_ret\<close>, given the number of the caught \<open>UcError\<close>:
    it returns for a fault it accepts and raises otherwise.
\<close>

record 'x Qiling =
  ostype :: QL_OS
  archtype :: QL_ARCH
  archbit :: int
  driver_MajorFunction :: "int \<Rightarrow> int"
  driver_DeviceObject :: int
  sizeof_IRP :: "width \<Rightarrow> int"
  sizeof_IO_STACK_LOCATION :: "width \<Rightarrow> int"
  sizeof_MDL :: "width \<Rightarrow> int"
  sizeof_DEVICE_OBJECT :: "width \<Rightarrow> int"
  bytes_IRP :: "width \<Rightarrow> IRP \<Rightarrow> byte list"
  bytes_IO_STACK_LOCATION :: "width \<Rightarrow> IO_STACK_LOCATION \<Rightarrow> byte list"
  bytes_MDL :: "width \<Rightarrow> MDL \<Rightarrow> byte list"
  IRP_from_buffer :: "width \<Rightarrow> byte list \<Rightarrow> IRP"
  DEVICE_OBJECT_from_buffer :: "width \<Rightarrow> byte list \<Rightarrow> DEVICE_OBJECT"
  heap_alloc :: "int \<Rightarrow> memory \<times> 'x \<Rightarrow> exn + int \<times> memory \<times> 'x"
  heap_free :: "int \<Rightarrow> memory \<times> 'x \<Rightarrow> memory \<times> 'x"
  writeParams :: "int list \<Rightarrow> memory \<times> 'x \<Rightarrow> exn + memory \<times> 'x"
  run :: "int \<Rightarrow> memory \<times> 'x \<Rightarrow> exn option \<times> memory \<times> 'x"
  verify_ret :: "int \<Rightarrow> memory \<times> 'x \<Rightarrow> exn + memory \<times> 'x"

subsection \<open>Device I/O requests: the state of one request\<close>

text \<open>
  What a request changes: the machine, the local list \<open>alloc_addr\<close>, and a trace of the
  calls it makes to the heap, to guest memory writes and to the emulator, in order. The
  trace is an observer only: nothing in the model reads it.
\<close>

datatype event =
    HeapAlloc int int
  | HeapFree int
  | MemWrite int "byte list"
  | Run int

record 'x state =
  mem :: memory
  ext :: 'x
  alloc_addr :: "int list"
  trace :: "event list"

definition init_state :: "memory \<times> 'x \<Rightarrow> 'x state" where
  "init_state mx = \<lparr>mem = fst mx, ext = snd mx, alloc_addr = [], trace = []\<rparr>"

text \<open>Statements in sequence; an exception (\<open>Inl\<close>) ends the request.\<close>

definition ret :: "'a \<Rightarrow> 'x state \<Rightarrow> exn + 'a \<times> 'x state" where
  "ret a s = Inr (a, s)"

definition bnd ::
  "('x state \<Rightarrow> exn + 'a \<times> 'x state) \<Rightarrow> ('a \<Rightarrow> 'x state \<Rightarrow> exn + 'b \<times> 'x state) \<Rightarrow>
   'x state \<Rightarrow> exn + 'b \<times> 'x state" where
  "bnd m f s = (case m s of Inl e \<Rightarrow> Inl e | Inr (a, s') \<Rightarrow> f a s')"

text \<open>\<open>addr = heap.alloc(n); alloc_addr.append(addr)\<close>: the two always go together.\<close>

definition alloc_append :: "'x Qiling \<Rightarrow> int \<Rightarrow> 'x state \<Rightarrow> exn + int \<times> 'x state" where
  "alloc_append ql n s =
     (case heap_alloc ql n (mem s, ext s) of
        Inl e \<Rightarrow> Inl e
      | Inr (a, m, x) \<Rightarrow>
          Inr (a, s\<lparr>mem := m, ext := x, alloc_addr := alloc_addr s @ [a],
                    trace := trace s @ [HeapAlloc n a]\<rparr>))"

definition write_mem :: "int \<Rightarrow> byte list \<Rightarrow> 'x state \<Rightarrow> exn + unit \<times> 'x state" where
  "write_mem a bs s =
     (case mem_write (mem s) a bs of
        None \<Rightarrow> Inl (UcError UC_ERR_WRITE_UNMAPPED)
      | Some m \<Rightarrow> Inr ((), s\<lparr>mem := m, trace := trace s @ [MemWrite a bs]\<rparr>))"

definition read_mem :: "int \<Rightarrow> int \<Rightarrow> 'x state \<Rightarrow> exn + byte list \<times> 'x state" where
  "read_mem a n s =
     (case mem_read (mem s) a n of
        None \<Rightarrow> Inl (UcError UC_ERR_READ_UNMAPPED)
      | Some bs \<Rightarrow> Inr (bs, s))"

text \<open>The structure variant chosen by \<open>archtype\<close> (requests) and by \<open>archbit\<close> (device object).\<close>

definition struct_width :: "'x Qiling \<Rightarrow> width" where
  "struct_width ql = (if archtype ql = X8664 then W64 else W32)"

definition device_width :: "'x Qiling \<Rightarrow> width" where
  "device_width ql = (if archbit ql = 32 then W32 else W64)"

text \<open>Python's slice \<open>data[:n]\<close>.\<close>

definition slice_to :: "'a list \<Rightarrow> int \<Rightarrow> 'a list" where
  "slice_to xs n = (if 0 \<le> n then take (nat n) xs else take (length xs - nat (- n)) xs)"

text \<open>\<open>build_mdl\<close> (utils.py 233-249 and 348-364, the same text in both functions).\<close>

definition build_mdl ::
  "'x Qiling \<Rightarrow> int \<Rightarrow> byte list option \<Rightarrow> 'x state \<Rightarrow> exn + MDL \<times> 'x state" where
  "build_mdl ql buffer_size data =
     bnd (alloc_append ql buffer_size) (\<lambda>mapped_address.
     let mdl = MDL_new\<lparr>MappedSystemVa := mapped_address, StartVa := mapped_address,
                       ByteOffset := 0, ByteCount := buffer_size\<rparr>
     in bnd (case data of
               None \<Rightarrow> ret ()
             | Some d \<Rightarrow>
                 if d \<noteq> [] then
                   write_mem mapped_address
                     (if int (length d) \<le> buffer_size then d else slice_to d buffer_size)
                 else ret ())
          (\<lambda>_. ret mdl))"

text \<open>
  Setting the arguments and running the dispatch routine (utils.py 305-314 and 457-467):
  only \<open>UcError\<close> is caught and handed to \<open>verify_ret\<close>.
\<close>

definition dispatch :: "'x Qiling \<Rightarrow> int \<Rightarrow> int \<Rightarrow> 'x state \<Rightarrow> exn + unit \<times> 'x state" where
  "dispatch ql entry irp_address s =
     (case writeParams ql [driver_DeviceObject ql, irp_address] (mem s, ext s) of
        Inl e \<Rightarrow> Inl e
      | Inr mx \<Rightarrow>
          (case run ql entry mx of
             (raised, mx') \<Rightarrow>
               (case raised of
                  None \<Rightarrow>
                    Inr ((), s\<lparr>mem := fst mx', ext := snd mx', trace := trace s @ [Run entry]\<rparr>)
                | Some e \<Rightarrow>
                    (case e of
                       UcError errno \<Rightarrow>
                         (case verify_ret ql errno mx' of
                            Inl e' \<Rightarrow> Inl e'
                          | Inr mx'' \<Rightarrow>
                              Inr ((), s\<lparr>mem := fst mx'', ext := snd mx'',
                                         trace := trace s @ [Run entry]\<rparr>))
                     | _ \<Rightarrow> Inl e))))"

text \<open>Reading the IRP back (utils.py 316-322 and 469-475).\<close>

definition read_irp :: "'x Qiling \<Rightarrow> int \<Rightarrow> 'x state \<Rightarrow> exn + IRP \<times> 'x state" where
  "read_irp ql irp_address =
     bnd (read_mem irp_address (sizeof_IRP ql (struct_width ql))) (\<lambda>irp_buffer.
     ret (IRP_from_buffer ql (struct_width ql) irp_buffer))"

text \<open>\<open>for addr in alloc_addr: heap.free(addr)\<close>.\<close>

definition free_one :: "'x Qiling \<Rightarrow> 'x state \<Rightarrow> int \<Rightarrow> 'x state" where
  "free_one ql s addr =
     (case heap_free ql addr (mem s, ext s) of
        (m, x) \<Rightarrow> s\<lparr>mem := m, ext := x, trace := trace s @ [HeapFree addr]\<rparr>)"

definition free_all :: "'x Qiling \<Rightarrow> 'x state \<Rightarrow> 'x state" where
  "free_all ql s = foldl (free_one ql) s (alloc_addr s)"

subsection \<open>\<open>io_Write\<close> (utils.py 216-329)\<close>

text \<open>
  Lines 225-303: the device object is read, then the IRP, its stack location and the
  buffer selected by the device flags are allocated and written. The value is the
  address of the IRP.
\<close>

definition io_Write_build :: "'x Qiling \<Rightarrow> byte list \<Rightarrow> 'x state \<Rightarrow> exn + int \<times> 'x state" where
  "io_Write_build ql in_buffer =
     bnd (read_mem (driver_DeviceObject ql) (sizeof_DEVICE_OBJECT ql (device_width ql))) (\<lambda>buf.
     let device_object = DEVICE_OBJECT_from_buffer ql (device_width ql) buf;
         w = struct_width ql
     in
     bnd (alloc_append ql (sizeof_IRP ql w)) (\<lambda>irp_address.
     bnd (alloc_append ql (sizeof_IO_STACK_LOCATION ql w)) (\<lambda>irpstack_address.
     let stack = IO_STACK_LOCATION_new\<lparr>MajorFunction := IRP_MJ_WRITE,
                                        Write_Length := int (length in_buffer)\<rparr>;
         irp0 = IRP_new\<lparr>irpstack := irpstack_address\<rparr>
     in
     bnd (write_mem irpstack_address (bytes_IO_STACK_LOCATION ql w stack)) (\<lambda>_.
     bnd (if Flags device_object AND DO_BUFFERED_IO \<noteq> 0 then
            bnd (alloc_append ql (int (length in_buffer))) (\<lambda>system_buffer_address.
            bnd (write_mem system_buffer_address in_buffer) (\<lambda>_.
            ret (irp0\<lparr>SystemBuffer := system_buffer_address\<rparr>)))
          else if Flags device_object AND DO_DIRECT_IO \<noteq> 0 then
            bnd (build_mdl ql (int (length in_buffer)) None) (\<lambda>mdl.
            bnd (alloc_append ql (sizeof_MDL ql w)) (\<lambda>mdl_address.
            bnd (write_mem mdl_address (bytes_MDL ql w mdl)) (\<lambda>_.
            ret (irp0\<lparr>MdlAddress := mdl_address\<rparr>))))
          else
            bnd (alloc_append ql (int (length in_buffer))) (\<lambda>input_buffer_address.
            bnd (write_mem input_buffer_address in_buffer) (\<lambda>_.
            ret (irp0\<lparr>UserBuffer := input_buffer_address\<rparr>)))) (\<lambda>irp1.
     bnd (write_mem irp_address (bytes_IRP ql w irp1)) (\<lambda>_.
     ret irp_address))))))"

text \<open>
  The whole function. Its value is the pair \<open>(flag, information)\<close>, where \<open>None\<close> is
  Python's \<open>None\<close>, together with the final state of the request.
\<close>

definition io_Write ::
  "'x Qiling \<Rightarrow> byte list \<Rightarrow> memory \<times> 'x \<Rightarrow> exn + (bool \<times> int option) \<times> 'x state" where
  "io_Write ql in_buffer mx =
     (if ostype ql = WINDOWS \<and> driver_MajorFunction ql IRP_MJ_WRITE = 0
      then Inr ((False, None), init_state mx)
      else
        bnd (io_Write_build ql in_buffer) (\<lambda>irp_address.
        bnd (dispatch ql (driver_MajorFunction ql IRP_MJ_WRITE) irp_address) (\<lambda>_.
        bnd (read_irp ql irp_address) (\<lambda>irp.
        (\<lambda>s. Inr ((True, Some (Information irp)), free_all ql s)))))
        (init_state mx))"

subsection \<open>\<open>ioctl\<close> (utils.py 341-497)\<close>

text \<open>The local variables of \<open>ioctl\<close> that are still used after the IRP has been written.\<close>

record ioctl_locals =
  ctl_method :: int
  input_buffer_addr :: int
  output_buffer_addr :: int
  irp_addr :: int
  irpstack_addr :: int
  system_buffer_addr :: int
  mdl_built :: "MDL option"
  irp_built :: IRP

type_synonym ioctl_params = "(int \<times> int \<times> int \<times> int) \<times> int \<times> byte list"

text \<open>Lines 373-455: unpacking \<open>params\<close>, the allocations, and the structures written.\<close>

definition ioctl_build ::
  "'x Qiling \<Rightarrow> ioctl_params \<Rightarrow> 'x state \<Rightarrow> exn + ioctl_locals \<times> 'x state" where
  "ioctl_build ql ps =
     (case ps of (code, output_buffer_size, in_buffer) \<Rightarrow>
      case code of (devicetype, function, method, access) \<Rightarrow>
     let input_buffer_size = int (length in_buffer);
         w = struct_width ql
     in
     bnd (alloc_append ql input_buffer_size) (\<lambda>input_buffer_address.
     bnd (write_mem input_buffer_address in_buffer) (\<lambda>_.
     bnd (alloc_append ql output_buffer_size) (\<lambda>output_buffer_address.
     bnd (alloc_append ql (sizeof_IRP ql w)) (\<lambda>irp_address.
     bnd (alloc_append ql (sizeof_IO_STACK_LOCATION ql w)) (\<lambda>irpstack_address.
     let irp0 = IRP_new\<lparr>irpstack := irpstack_address\<rparr>;
         stack = IO_STACK_LOCATION_new
                   \<lparr>IoControlCode := ioctl_code devicetype function method access,
                    OutputBufferLength := output_buffer_size,
                    InputBufferLength := input_buffer_size,
                    Type3InputBuffer := input_buffer_address\<rparr>
     in
     bnd (write_mem irpstack_address (bytes_IO_STACK_LOCATION ql w stack)) (\<lambda>_.
     let irp1 = (if method = METHOD_NEITHER
                 then irp0\<lparr>UserBuffer := output_buffer_address\<rparr> else irp0);
         system_buffer_size = max input_buffer_size output_buffer_size
     in
     bnd (alloc_append ql system_buffer_size) (\<lambda>system_buffer_address.
     bnd (write_mem system_buffer_address in_buffer) (\<lambda>_.
     let irp2 = irp1\<lparr>SystemBuffer := system_buffer_address\<rparr>
     in
     bnd (if method = METHOD_IN_DIRECT \<or> method = METHOD_OUT_DIRECT then
            bnd (build_mdl ql output_buffer_size None) (\<lambda>mdl.
            bnd (alloc_append ql (sizeof_MDL ql w)) (\<lambda>mdl_address.
            bnd (write_mem mdl_address (bytes_MDL ql w mdl)) (\<lambda>_.
            ret (Some mdl, irp2\<lparr>MdlAddress := mdl_address\<rparr>))))
          else ret (None, irp2)) (\<lambda>(mdl, irp3).
     bnd (write_mem irp_address (bytes_IRP ql w irp3)) (\<lambda>_.
     ret \<lparr>ctl_method = method,
          input_buffer_addr = input_buffer_address,
          output_buffer_addr = output_buffer_address,
          irp_addr = irp_address,
          irpstack_addr = irpstack_address,
          system_buffer_addr = system_buffer_address,
          mdl_built = mdl,
          irp_built = irp3\<rparr>)))))))))))"

text \<open>
  Lines 479-487: three \<open>if\<close> statements in a row under the test of the status. \<open>mdl\<close> is
  bound only when the MDL was built; using it unbound would raise \<open>NameError\<close>.
\<close>

definition read_output ::
  "ioctl_locals \<Rightarrow> IRP \<Rightarrow> 'x state \<Rightarrow> exn + byte list \<times> 'x state" where
  "read_output loc irp =
     (if 0 \<le> Status irp then
        bnd (if ctl_method loc = METHOD_BUFFERED
             then read_mem (system_buffer_addr loc) (Information irp) else ret []) (\<lambda>out1.
        bnd (if ctl_method loc = METHOD_IN_DIRECT \<or> ctl_method loc = METHOD_OUT_DIRECT
             then (case mdl_built loc of
                     None \<Rightarrow> (\<lambda>s. Inl OtherException)
                   | Some mdl \<Rightarrow> read_mem (MappedSystemVa mdl) (Information irp))
             else ret out1) (\<lambda>out2.
        if ctl_method loc = METHOD_NEITHER
        then read_mem (output_buffer_addr loc) (Information irp) else ret out2))
      else ret [])"

text \<open>
  The value of \<open>ioctl\<close>: \<open>ReturnsNone\<close> is the fall-through of the branch for other
  operating systems, \<open>ReturnsTriple\<close> a 3-tuple whose components may be \<open>None\<close>.
\<close>

datatype ioctl_return =
    ReturnsNone
  | ReturnsTriple "int option" "int option" "byte list option"

definition ioctl ::
  "'x Qiling \<Rightarrow> ioctl_params \<Rightarrow> memory \<times> 'x \<Rightarrow> exn + ioctl_return \<times> 'x state" where
  "ioctl ql ps mx =
     (if ostype ql = WINDOWS then
        if driver_MajorFunction ql IRP_MJ_DEVICE_CONTROL = 0
        then Inr (ReturnsTriple None None None, init_state mx)
        else
          bnd (ioctl_build ql ps) (\<lambda>loc.
          bnd (dispatch ql (driver_MajorFunction ql IRP_MJ_DEVICE_CONTROL) (irp_addr loc)) (\<lambda>_.
          bnd (read_irp ql (irp_addr loc)) (\<lambda>irp.
          bnd (read_output loc irp) (\<lambda>output_data.
          (\<lambda>s. Inr (ReturnsTriple (Some (Status irp)) (Some (Information irp)) (Some output_data),
                     free_all ql s))))))
          (init_state mx)
      else Inr (ReturnsNone, init_state mx))"

subsection \<open>Reading the trace\<close>

text \<open>The addresses returned by the heap and the addresses handed to \<open>free\<close>, in order.\<close>

fun allocated :: "event list \<Rightarrow> int list" where
  "allocated [] = []"
| "allocated (HeapAlloc n a # es) = a # allocated es"
| "allocated (e # es) = allocated es"

fun freed :: "event list \<Rightarrow> int list" where
  "freed [] = []"
| "freed (HeapFree a # es) = a # freed es"
| "freed (e # es) = freed es"


text \<open>
  Before the release loop: the trace shows exactly the allocations recorded in
  \<open>alloc_addr\<close>, and nothing has been freed.
\<close>

definition tracked :: "'x state \<Rightarrow> bool" where
  "tracked s = (allocated (trace s) = alloc_addr s \<and> freed (trace s) = [])"

subsection \<open>A concrete machine used to instantiate the theorems\<close>

text \<open>
  Structures are laid out as consecutive little-endian 32-bit fields, in both widths.
\<close>

definition le32_bytes :: "int \<Rightarrow> byte list" where
  "le32_bytes v = [of_int v, of_int (v div 0x100), of_int (v div 0x10000), of_int (v div 0x1000000)]"

definition le32 :: "byte list \<Rightarrow> int" where
  "le32 bs = (case bs of
                [b0, b1, b2, b3] \<Rightarrow> uint b0 + 0x100 * uint b1 + 0x10000 * uint b2 + 0x1000000 * uint b3
              | _ \<Rightarrow> 0)"

definition sle32 :: "byte list \<Rightarrow> int" where
  "sle32 bs = (if 0x80000000 \<le> le32 bs then le32 bs - 0x100000000 else le32 bs)"

definition field :: "nat \<Rightarrow> byte list \<Rightarrow> byte list" where
  "field i bs = take 4 (drop (4 * i) bs)"

definition demo_bytes_IRP :: "width \<Rightarrow> IRP \<Rightarrow> byte list" where
  "demo_bytes_IRP w r = le32_bytes (irpstack r) @ le32_bytes (SystemBuffer r) @ le32_bytes (MdlAddress r)
     @ le32_bytes (UserBuffer r) @ le32_bytes (Status r) @ le32_bytes (Information r)"

definition demo_IRP_from_buffer :: "width \<Rightarrow> byte list \<Rightarrow> IRP" where
  "demo_IRP_from_buffer w bs =
     \<lparr>irpstack = le32 (field 0 bs), SystemBuffer = le32 (field 1 bs), MdlAddress = le32 (field 2 bs),
      UserBuffer = le32 (field 3 bs), Status = sle32 (field 4 bs), Information = le32 (field 5 bs)\<rparr>"

definition demo_bytes_IO_STACK_LOCATION :: "width \<Rightarrow> IO_STACK_LOCATION \<Rightarrow> byte list" where
  "demo_bytes_IO_STACK_LOCATION w r = le32_bytes (MajorFunction r) @ le32_bytes (Write_Length r)
     @ le32_bytes (IoControlCode r) @ le32_bytes (OutputBufferLength r)
     @ le32_bytes (InputBufferLength r) @ le32_bytes (Type3InputBuffer r)"

definition demo_bytes_MDL :: "width \<Rightarrow> MDL \<Rightarrow> byte list" where
  "demo_bytes_MDL w r = le32_bytes (MappedSystemVa r) @ le32_bytes (StartVa r)
     @ le32_bytes (ByteOffset r) @ le32_bytes (ByteCount r)"

definition demo_DEVICE_OBJECT_from_buffer :: "width \<Rightarrow> byte list \<Rightarrow> DEVICE_OBJECT" where
  "demo_DEVICE_OBJECT_from_buffer w bs = \<lparr>Flags = le32 (field 0 bs)\<rparr>"

text \<open>
  The collaborators keep the next free heap address and the arguments last written by
  \<open>writeParams\<close>. The heap hands out consecutive 32-byte slots and maps the bytes asked
  for; \<open>free\<close> keeps the memory mapped.
\<close>

type_synonym demo_ext = "int \<times> int list"

definition demo_alloc :: "int \<Rightarrow> memory \<times> demo_ext \<Rightarrow> exn + int \<times> memory \<times> demo_ext" where
  "demo_alloc n mx =
     (case mx of (m, next, args) \<Rightarrow>
        Inr (next, (\<lambda>a. if next \<le> a \<and> a < next + n then Some 0 else m a), next + 0x20, args))"

definition demo_free :: "int \<Rightarrow> memory \<times> demo_ext \<Rightarrow> memory \<times> demo_ext" where
  "demo_free a mx = mx"

definition demo_writeParams :: "int list \<Rightarrow> memory \<times> demo_ext \<Rightarrow> exn + memory \<times> demo_ext" where
  "demo_writeParams args mx = (case mx of (m, next, old) \<Rightarrow> Inr (m, next, args))"

text \<open>
  The guest driver. Its write routine at \<open>0x401000\<close> fails the request with
  \<open>STATUS_UNSUCCESSFUL\<close> and an information count of 7, then returns to an unmapped
  address, which the emulator reports as a fetch fault (number 8). Its device-control
  routine at \<open>0x402000\<close> completes with status 0 and an information count of 2, and the one
  at \<open>0x403000\<close> fails with \<open>STATUS_UNSUCCESSFUL\<close> and the same count. Each stores the two
  values into the status block of the IRP it is given.
\<close>

definition demo_run :: "int \<Rightarrow> memory \<times> demo_ext \<Rightarrow> exn option \<times> memory \<times> demo_ext" where
  "demo_run entry mx =
     (case mx of (m, next, args) \<Rightarrow>
        (case args of
           [device, irp_a] \<Rightarrow>
             (case mem_write m (irp_a + 16)
                     (if entry = 0x402000 then le32_bytes 0 @ le32_bytes 2
                      else le32_bytes 0xC0000001 @ le32_bytes (if entry = 0x401000 then 7 else 2)) of
                None \<Rightarrow> (Some (UcError UC_ERR_WRITE_UNMAPPED), mx)
              | Some m' \<Rightarrow> (if entry = 0x401000 then Some (UcError 8) else None, m', next, args))
         | _ \<Rightarrow> (Some OtherException, mx)))"

definition demo_verify_ret :: "int \<Rightarrow> memory \<times> demo_ext \<Rightarrow> exn + memory \<times> demo_ext" where
  "demo_verify_ret errno mx = (if errno = 8 then Inr mx else Inl (UcError errno))"

definition demo_ql :: "demo_ext Qiling" where
  "demo_ql =
     \<lparr>ostype = WINDOWS, archtype = X8664, archbit = 64,
      driver_MajorFunction =
        (\<lambda>i. if i = IRP_MJ_WRITE then 0x401000 else if i = IRP_MJ_DEVICE_CONTROL then 0x402000 else 0),
      driver_DeviceObject = 0x2000,
      sizeof_IRP = (\<lambda>w. 24), sizeof_IO_STACK_LOCATION = (\<lambda>w. 24), sizeof_MDL = (\<lambda>w. 16),
      sizeof_DEVICE_OBJECT = (\<lambda>w. 4),
      bytes_IRP = demo_bytes_IRP, bytes_IO_STACK_LOCATION = demo_bytes_IO_STACK_LOCATION,
      bytes_MDL = demo_bytes_MDL, IRP_from_buffer = demo_IRP_from_buffer,
      DEVICE_OBJECT_from_buffer = demo_DEVICE_OBJECT_from_buffer,
      heap_alloc = demo_alloc, heap_free = demo_free, writeParams = demo_writeParams,
      run = demo_run, verify_ret = demo_verify_ret\<rparr>"

text \<open>The same guest with nothing registered in the dispatch table.\<close>

definition demo_ql_unregistered :: "demo_ext Qiling" where
  "demo_ql_unregistered = demo_ql\<lparr>driver_MajorFunction := (\<lambda>i. 0)\<rparr>"

text \<open>The same guest whose device-control entry is the failing routine.\<close>

definition demo_ql_failing :: "demo_ext Qiling" where
  "demo_ql_failing = demo_ql\<lparr>driver_MajorFunction := (\<lambda>i. 0x403000)\<rparr>"

text \<open>
  The machine before a request: the device object at \<open>0x2000\<close> with the buffered-I/O flag
  set, an empty heap starting at \<open>0x1000\<close>, no arguments written yet.
\<close>

definition demo_machine :: "memory \<times> demo_ext" where
  "demo_machine =
     ((\<lambda>a. if 0x2000 \<le> a \<and> a < 0x2004 then Some (le32_bytes DO_BUFFERED_IO ! nat (a - 0x2000)) else None),
      0x1000, [])"

text \<open>
  The write request \<open>io_Write(b"PAY")\<close> on the concrete machine: the state after the
  structures are built, the state after the dispatch, and the bytes of the IRP read back.
\<close>

definition demo_write_built :: "exn + int \<times> demo_ext state" where
  "demo_write_built = io_Write_build demo_ql [0x50, 0x41, 0x59] (init_state demo_machine)"

definition demo_write_dispatched :: "exn + unit \<times> demo_ext state" where
  "demo_write_dispatched =
     dispatch demo_ql 0x401000 (fst (projr demo_write_built)) (snd (projr demo_write_built))"

definition demo_write_irp_buffer :: "byte list" where
  "demo_write_irp_buffer =
     the (mem_read (mem (snd (projr demo_write_dispatched))) (fst (projr demo_write_built)) 24)"

text \<open>
  The device-control request with control code \<open>(0x22, 0x800, METHOD_BUFFERED, 0)\<close>, an
  output size of 4 and the input \<open>b"ABC"\<close> on the concrete machine: the state after the
  structures are built, the state after the dispatch, and the bytes of the IRP read back.
\<close>

definition demo_ioctl_params :: ioctl_params where
  "demo_ioctl_params = ((0x22, 0x800, METHOD_BUFFERED, 0), 4, [0x41, 0x42, 0x43])"

definition demo_ioctl_built :: "exn + ioctl_locals \<times> demo_ext state" where
  "demo_ioctl_built = ioctl_build demo_ql demo_ioctl_params (init_state demo_machine)"

definition demo_ioctl_dispatched :: "exn + unit \<times> demo_ext state" where
  "demo_ioctl_dispatched =
     dispatch demo_ql 0x402000 (irp_addr (fst (projr demo_ioctl_built))) (snd (projr demo_ioctl_built))"

definition demo_ioctl_irp_buffer :: "byte list" where
  "demo_ioctl_irp_buffer =
     the (mem_read (mem (snd (projr demo_ioctl_dispatched)))
            (irp_addr (fst (projr demo_ioctl_built))) 24)"

definition demo_ioctl_result :: "exn + ioctl_return \<times> demo_ext state" where
  "demo_ioctl_result = ioctl demo_ql demo_ioctl_params demo_machine"

subsection \<open>The release loop seen from outside\<close>

text \<open>
  \<open>heap.free\<close> applied to the machine once for every entry of \<open>alloc_addr\<close>, in the order of
  the list, and nothing else done: \<open>s'\<close> is what this leaves of the state \<open>s\<close>. The trace
  grows by the same frees.
\<close>

definition released_from :: "'x Qiling \<Rightarrow> 'x state \<Rightarrow> 'x state \<Rightarrow> bool" where
  "released_from ql s s' =
     ((mem s', ext s') = foldl (\<lambda>mx a. heap_free ql a mx) (mem s, ext s) (alloc_addr s)
      \<and> alloc_addr s' = alloc_addr s
      \<and> trace s' = trace s @ map HeapFree (alloc_addr s))"

subsection \<open>A second concrete heap\<close>

text \<open>
  A heap that hands out the next unused address and advances by the size asked for, so
  that an allocation of size 0 is followed by an allocation at the same address, and
  whose \<open>free\<close> appends the address it is given to a list kept beside the state of the
  other collaborators. Driver, argument writer and fault classifier are those of the
  first machine.
\<close>

type_synonym bump_ext = "demo_ext \<times> int list"

definition bump_alloc :: "int \<Rightarrow> memory \<times> bump_ext \<Rightarrow> exn + int \<times> memory \<times> bump_ext" where
  "bump_alloc n mx =
     (case mx of (m, (next, args), frees) \<Rightarrow>
        Inr (next, (\<lambda>a. if next \<le> a \<and> a < next + n then Some 0 else m a),
             (next + n, args), frees))"

definition bump_free :: "int \<Rightarrow> memory \<times> bump_ext \<Rightarrow> memory \<times> bump_ext" where
  "bump_free a mx = (case mx of (m, x, frees) \<Rightarrow> (m, x, frees @ [a]))"

definition bump_writeParams :: "int list \<Rightarrow> memory \<times> bump_ext \<Rightarrow> exn + memory \<times> bump_ext" where
  "bump_writeParams args mx =
     (case mx of (m, x, frees) \<Rightarrow>
        (case demo_writeParams args (m, x) of
           Inl e \<Rightarrow> Inl e
         | Inr (m', x') \<Rightarrow> Inr (m', x', frees)))"

definition bump_run :: "int \<Rightarrow> memory \<times> bump_ext \<Rightarrow> exn option \<times> memory \<times> bump_ext" where
  "bump_run entry mx =
     (case mx of (m, x, frees) \<Rightarrow>
        (case demo_run entry (m, x) of (raised, m', x') \<Rightarrow> (raised, m', x', frees)))"

definition bump_verify_ret :: "int \<Rightarrow> memory \<times> bump_ext \<Rightarrow> exn + memory \<times> bump_ext" where
  "bump_verify_ret errno mx = (if errno = 8 then Inr mx else Inl (UcError errno))"

definition bump_ql :: "bump_ext Qiling" where
  "bump_ql =
     \<lparr>ostype = WINDOWS, archtype = X8664, archbit = 64,
      driver_MajorFunction =
        (\<lambda>i. if i = IRP_MJ_WRITE then 0x401000 else if i = IRP_MJ_DEVICE_CONTROL then 0x402000 else 0),
      driver_DeviceObject = 0x2000,
      sizeof_IRP = (\<lambda>w. 24), sizeof_IO_STACK_LOCATION = (\<lambda>w. 24), sizeof_MDL = (\<lambda>w. 16),
      sizeof_DEVICE_OBJECT = (\<lambda>w. 4),
      bytes_IRP = demo_bytes_IRP, bytes_IO_STACK_LOCATION = demo_bytes_IO_STACK_LOCATION,
      bytes_MDL = demo_bytes_MDL, IRP_from_buffer = demo_IRP_from_buffer,
      DEVICE_OBJECT_from_buffer = demo_DEVICE_OBJECT_from_buffer,
      heap_alloc = bump_alloc, heap_free = bump_free, writeParams = bump_writeParams,
      run = bump_run, verify_ret = bump_verify_ret\<rparr>"

definition bump_machine :: "memory \<times> bump_ext" where
  "bump_machine = (fst demo_machine, snd demo_machine, [])"

text \<open>
  On this heap: the write request \<open>io_Write(b"PAY")\<close>, and the device-control request with
  control code \<open>(0x22, 0x800, METHOD_BUFFERED, 0)\<close>, an output size of 4 and no input bytes.
\<close>

definition bump_write_result :: "exn + (bool \<times> int option) \<times> bump_ext state" where
  "bump_write_result = io_Write bump_ql [0x50, 0x41, 0x59] bump_machine"

definition bump_ioctl_result :: "exn + ioctl_return \<times> bump_ext state" where
  "bump_ioctl_result = ioctl bump_ql ((0x22, 0x800, METHOD_BUFFERED, 0), 4, []) bump_machine"

section \<open>Theorems\<close>

subsection \<open>Control code\<close>

lemma low_bits_push_bit: "2 \<le> n \<Longrightarrow> push_bit n (x::int) AND 3 = 0"
proof -
  assume n: "2 \<le> n"
  have "push_bit n x AND mask 2 = take_bit 2 (push_bit n x)"
    by (simp add: take_bit_eq_mask)
  also have "\<dots> = 0"
    using n by (simp add: take_bit_push_bit)
  finally show ?thesis by (simp add: mask_eq_exp_minus_1)
qed

lemma low_bits_self: "0 \<le> m \<Longrightarrow> m < 4 \<Longrightarrow> (m::int) AND 3 = m"
proof -
  assume m: "0 \<le> m" "m < 4"
  have "m AND mask 2 = take_bit 2 m"
    by (simp add: take_bit_eq_mask)
  also have "\<dots> = m"
    using m by (simp add: take_bit_int_eq_self)
  finally show ?thesis by (simp add: mask_eq_exp_minus_1)
qed

text \<open>
  Claim C4. For non-negative \<open>DeviceType\<close>, \<open>Access\<close>, \<open>Function\<close> and every 2-bit
  \<open>Method\<close>, \<open>ioctl_code\<close> is \<open>(DeviceType << 16) | (Access << 14) | (Function << 2) | Method\<close>,
  and the low two bits of the result (\<open>code & 3\<close>) are \<open>Method\<close>.
\<close>

theorem ioctl_code_layout:
  assumes "0 \<le> DeviceType" and "0 \<le> Access" and "0 \<le> Function"
    and "0 \<le> Method" and "Method < 4"
  shows "ioctl_code DeviceType Function Method Access =
           ((push_bit 16 DeviceType OR push_bit 14 Access) OR push_bit 2 Function) OR Method
         \<and> ioctl_code DeviceType Function Method Access AND 3 = Method"
  using assms
  by (simp add: ioctl_code_def bit.conj_disj_distrib2 low_bits_push_bit low_bits_self)

theorem ioctl_code_layout_witness:
  "ioctl_code 0x22 0x801 2 3 = 0x22E006 \<and> ioctl_code 0x22 0x801 2 3 AND 3 = 2"
  using ioctl_code_layout [of "0x22" 3 "0x801" 2]
  by (simp add: ioctl_code_def)

subsection \<open>Call ledger\<close>

lemma call_api_counter: "syscalls_counter (call_api a n p r ra u) = syscalls_counter u + 1"
  by (simp add: call_api_def Let_def)

lemma calls_of_call_api:
  "calls_of (call_api a n p r ra u) nm =
     (if nm = strip_hook n
      then calls_of u nm @ [entry_of (a, n, p, r, ra) (syscalls_counter u)]
      else calls_of u nm)"
  by (simp add: call_api_def Let_def calls_of_def entry_of_def)

lemma record_calls_snoc: "record_calls (cs @ [c]) u = record_call (record_calls cs u) c"
  by (simp add: record_calls_def)

lemma record_calls_counter:
  "syscalls_counter (record_calls cs u) = syscalls_counter u + int (length cs)"
  by (induction cs rule: rev_induct)
     (auto simp: record_calls_snoc record_call_def call_api_counter record_calls_def split: prod.splits)

lemma api_name_tuple: "api_name (a, n, p, r, ra) = strip_hook n"
  by (simp add: api_name_def)

lemma record_calls_entries:
  "calls_of (record_calls cs u) nm =
     calls_of u nm @
     map (\<lambda>k. entry_of (cs ! k) (syscalls_counter u + int k))
         (filter (\<lambda>k. api_name (cs ! k) = nm) [0..<length cs])"
proof (induction cs rule: rev_induct)
  case Nil
  then show ?case by (simp add: record_calls_def)
next
  case (snoc c cs)
  obtain a n p r ra where c: "c = (a, n, p, r, ra)" by (cases c) auto
  let ?f = "\<lambda>xs k. entry_of (xs ! k) (syscalls_counter u + int k)"
  let ?P = "\<lambda>xs k. api_name (xs ! k) = nm"
  have old: "filter (?P (cs @ [c])) [0..<length cs] = filter (?P cs) [0..<length cs]"
    by (rule filter_cong) (auto simp: nth_append)
  have oldm: "map (?f (cs @ [c])) (filter (?P cs) [0..<length cs])
            = map (?f cs) (filter (?P cs) [0..<length cs])"
    by (rule map_cong) (auto simp: nth_append)
  have step: "calls_of (record_calls (cs @ [c]) u) nm =
      calls_of (record_calls cs u) nm @
      (if api_name c = nm then [entry_of c (syscalls_counter u + int (length cs))] else [])"
    by (auto simp: record_calls_snoc record_call_def c calls_of_call_api record_calls_counter
        api_name_tuple)
  have new: "map (?f (cs @ [c])) (filter (?P (cs @ [c])) [0..<length (cs @ [c])])
      = map (?f cs) (filter (?P cs) [0..<length cs]) @
        (if api_name c = nm then [entry_of c (syscalls_counter u + int (length cs))] else [])"
    by (simp add: old oldm)
  show ?case
    by (simp only: step new snoc.IH append_assoc)
qed

lemma clear_syscalls_fields:
  "syscalls (clear_syscalls u) = Map.empty"
  "appeared_strings (clear_syscalls u) = Map.empty"
  "syscalls_counter (clear_syscalls u) = 0"
  "calls_of (clear_syscalls u) nm = []"
  by (simp_all add: clear_syscalls_def calls_of_def)

lemma count_list_filter_upt:
  "count_list (map int (filter P [0..<n])) (int k) = (if k < n \<and> P k then 1 else 0)"
  by (induction n) (auto simp: less_Suc_eq)

text \<open>
  Claim C6. Starting from a reset ledger (\<open>clear_syscalls\<close>, which empties the ledger and
  the string index and sets the counter to 0), after any sequence \<open>cs\<close> of \<open>_call_api\<close>
  invocations the counter is \<open>length cs\<close>; the positions stored under each name are the
  indices, in increasing order, of the calls made under that (prefix-stripped) name, so the
  \<open>k\<close>-th call carries number \<open>k\<close>, every number in \<open>0..n-1\<close> is recorded exactly once and none
  is reused; and one more call takes the current counter as its number and increments it
  by 1.
\<close>

theorem call_ledger_sequence_numbers:
  fixes u :: "('p, 'r) QlOsUtils" and cs :: "('p, 'r) api_call list"
  defines "u' \<equiv> record_calls cs (clear_syscalls u)"
  shows "syscalls (clear_syscalls u) = Map.empty
       \<and> appeared_strings (clear_syscalls u) = Map.empty
       \<and> syscalls_counter (clear_syscalls u) = 0
       \<and> syscalls_counter u' = int (length cs)
       \<and> (\<forall>nm. map position (calls_of u' nm) =
                 map int (filter (\<lambda>k. api_name (cs ! k) = nm) [0..<length cs]))
       \<and> (\<forall>k < length cs. \<forall>nm. count_list (map position (calls_of u' nm)) (int k) =
                 (if api_name (cs ! k) = nm then 1 else 0))
       \<and> (\<forall>k < length cs. entry_of (cs ! k) (int k) \<in> set (calls_of u' (api_name (cs ! k))))
       \<and> (\<forall>c. syscalls_counter (record_call u' c) = syscalls_counter u' + 1
              \<and> last (calls_of (record_call u' c) (api_name c)) = entry_of c (syscalls_counter u'))"
proof -
  have entries: "calls_of u' nm =
      map (\<lambda>k. entry_of (cs ! k) (int k)) (filter (\<lambda>k. api_name (cs ! k) = nm) [0..<length cs])"
    for nm
    by (simp add: u'_def record_calls_entries clear_syscalls_fields)
  have pos: "position (entry_of c i) = i" for c :: "('p, 'r) api_call" and i
    by (cases c) (simp add: entry_of_def)
  have positions: "map position (calls_of u' nm) =
      map int (filter (\<lambda>k. api_name (cs ! k) = nm) [0..<length cs])" for nm
    by (simp add: entries pos comp_def)
  have counter: "syscalls_counter u' = int (length cs)"
    by (simp add: u'_def record_calls_counter clear_syscalls_fields)
  have once: "count_list (map position (calls_of u' nm)) (int k) =
      (if api_name (cs ! k) = nm then 1 else 0)" if "k < length cs" for k nm
    using that by (simp add: positions count_list_filter_upt)
  have mem: "entry_of (cs ! k) (int k) \<in> set (calls_of u' (api_name (cs ! k)))"
    if "k < length cs" for k
    using that by (auto simp: entries)
  have next_call: "syscalls_counter (record_call u' c) = syscalls_counter u' + 1
      \<and> last (calls_of (record_call u' c) (api_name c)) = entry_of c (syscalls_counter u')"
    for c :: "('p, 'r) api_call"
    by (cases c) (simp add: record_call_def call_api_counter calls_of_call_api api_name_tuple)
  show ?thesis
    using positions counter once mem next_call
    by (simp add: clear_syscalls_fields)
qed

theorem call_ledger_sequence_numbers_witness:
  "syscalls_counter (record_calls demo_calls (clear_syscalls demo_utils)) = 3
   \<and> map position (calls_of (record_calls demo_calls (clear_syscalls demo_utils)) (py ''CreateFileA'')) = [0, 2]
   \<and> map position (calls_of (record_calls demo_calls (clear_syscalls demo_utils)) (py ''ReadFile'')) = [1]
   \<and> (1::nat) < length demo_calls
   \<and> entry_of (demo_calls ! 1) 1 \<in> set (calls_of (record_calls demo_calls (clear_syscalls demo_utils)) (py ''ReadFile''))"
proof -
  note T = call_ledger_sequence_numbers [where cs = demo_calls and u = demo_utils]
  have len: "length demo_calls = 3"
    by (simp add: demo_calls_def)
  have upt3: "[0..<3] = [0, 1, 2::nat]"
    by (simp add: numeral_3_eq_3)
  have names: "api_name (demo_calls ! 0) = py ''CreateFileA''"
    "api_name (demo_calls ! 1) = py ''ReadFile''"
    "api_name (demo_calls ! 2) = py ''CreateFileA''"
    "py ''ReadFile'' \<noteq> py ''CreateFileA''"
    by (simp_all add: demo_calls_def api_name_def strip_hook_def startswith_def py_def)
  from T have cnt: "syscalls_counter (record_calls demo_calls (clear_syscalls demo_utils)) = 3"
    by (simp add: len)
  from T have pos: "map position (calls_of (record_calls demo_calls (clear_syscalls demo_utils)) nm)
      = map int (filter (\<lambda>k. api_name (demo_calls ! k) = nm) [0..<length demo_calls])" for nm
    by blast
  have lists:
    "map position (calls_of (record_calls demo_calls (clear_syscalls demo_utils)) (py ''CreateFileA'')) = [0, 2]"
    "map position (calls_of (record_calls demo_calls (clear_syscalls demo_utils)) (py ''ReadFile'')) = [1]"
    using names by (simp_all add: pos len upt3)
  have one: "(1::nat) < length demo_calls"
    by (simp add: len)
  from T one
  have "entry_of (demo_calls ! 1) (int 1) \<in> set (calls_of (record_calls demo_calls (clear_syscalls demo_utils)) (api_name (demo_calls ! 1)))"
    by blast
  then have mem: "entry_of (demo_calls ! 1) 1 \<in> set (calls_of (record_calls demo_calls (clear_syscalls demo_utils)) (py ''ReadFile''))"
    using names(2) by simp
  from cnt lists one mem show ?thesis
    by blast
qed

subsection \<open>Guest buffers and the string reader\<close>

lemma holds_bytes_iff:
  "holds_bytes m a bs \<longleftrightarrow> (\<forall>i<length bs. m (a + int i) = Some (bs ! i))"
proof
  assume h: "holds_bytes m a bs"
  then have none: "None \<notin> set (mem_cells m a (length bs))"
    and eq: "map the (mem_cells m a (length bs)) = bs"
    by (auto simp: holds_bytes_def mem_read_def split: if_splits)
  show "\<forall>i<length bs. m (a + int i) = Some (bs ! i)"
  proof (intro allI impI)
    fix i assume i: "i < length bs"
    then have "m (a + int i) \<in> set (mem_cells m a (length bs))"
      by (auto simp: mem_cells_def)
    with none obtain b where b: "m (a + int i) = Some b"
      by (cases "m (a + int i)") auto
    from eq i have "bs ! i = the (m (a + int i))"
      by (metis (no_types, lifting) add.left_neutral length_map mem_cells_def nth_map nth_upt length_upt diff_zero)
    with b show "m (a + int i) = Some (bs ! i)" by simp
  qed
next
  assume h: "\<forall>i<length bs. m (a + int i) = Some (bs ! i)"
  then have "None \<notin> set (mem_cells m a (length bs))"
    by (auto simp: mem_cells_def)
  moreover from h have "map the (mem_cells m a (length bs)) = bs"
    by (auto simp: mem_cells_def intro!: nth_equalityI)
  ultimately show "holds_bytes m a bs"
    by (simp add: holds_bytes_def mem_read_def)
qed

lemma holds_bytes_Nil: "holds_bytes m a []"
  by (simp add: holds_bytes_iff)

lemma holds_bytes_Cons:
  "holds_bytes m a (b # bs) \<longleftrightarrow> m a = Some b \<and> holds_bytes m (a + 1) bs"
proof -
  have "(\<forall>i<Suc (length bs). m (a + int i) = Some ((b # bs) ! i))
        \<longleftrightarrow> m a = Some b \<and> (\<forall>i<length bs. m (a + 1 + int i) = Some (bs ! i))"
    (is "?L \<longleftrightarrow> ?R")
  proof
    assume l: ?L
    from l have "m (a + int 0) = Some ((b # bs) ! 0)" by blast
    moreover have "m (a + 1 + int i) = Some (bs ! i)" if "i < length bs" for i
      using l [rule_format, of "Suc i"] that by (simp add: algebra_simps)
    ultimately show ?R by simp
  next
    assume r: ?R
    show ?L
    proof (intro allI impI)
      fix i assume "i < Suc (length bs)"
      then show "m (a + int i) = Some ((b # bs) ! i)"
        using r by (cases i) (auto simp: algebra_simps)
    qed
  qed
  then show ?thesis by (simp add: holds_bytes_iff)
qed

lemma holds_bytes_append:
  "holds_bytes m a (xs @ ys) \<longleftrightarrow> holds_bytes m a xs \<and> holds_bytes m (a + int (length xs)) ys"
  by (induction xs arbitrary: a) (auto simp: holds_bytes_Nil holds_bytes_Cons algebra_simps)

lemma mem_read_1: "mem_read m a 1 = (case m a of None \<Rightarrow> None | Some b \<Rightarrow> Some [b])"
  by (auto simp: mem_read_def mem_cells_def split: option.splits)

lemma mem_read_2: "mem_read m a 2 =
   (case m a of None \<Rightarrow> None | Some b \<Rightarrow> (case m (a + 1) of None \<Rightarrow> None | Some c \<Rightarrow> Some [b, c]))"
  by (auto simp: mem_read_def mem_cells_def numeral_2_eq_2 split: option.splits)

lemma read_string_loop_narrow:
  assumes "holds_bytes m a (bs @ [0])" and "\<forall>b\<in>set bs. b \<noteq> 0 \<and> b < 0x80"
  shows "read_string_loop m a [0] acc = Some (Inr (acc @ map unat bs))"
  using assms
proof (induction bs arbitrary: a acc)
  case Nil
  then have "m a = Some 0" by (simp add: holds_bytes_Cons)
  then show ?case
    by (subst read_string_loop.simps) (simp add: mem_read_1)
next
  case (Cons b bs)
  from Cons.prems have b: "m a = Some b" "b \<noteq> 0" "b < 0x80"
    and rest: "holds_bytes m (a + 1) (bs @ [0])" "\<forall>b\<in>set bs. b \<noteq> 0 \<and> b < 0x80"
    by (simp_all add: holds_bytes_Cons)
  from b have nz: "unat b \<noteq> 0"
    by (simp add: unat_eq_0)
  have "read_string_loop m a [0] acc = read_string_loop m (a + 1) [0] (acc @ [unat b])"
    using b nz by (subst read_string_loop.simps) (simp add: mem_read_1)
  also have "\<dots> = Some (Inr ((acc @ [unat b]) @ map unat bs))"
    by (rule Cons.IH [OF rest])
  finally show ?case by simp
qed

lemma py_split_no_sep: "sep \<notin> set s \<Longrightarrow> py_split sep s = [s]"
  by (induction s) auto

lemma string_appearance_single:
  "32 \<notin> set s \<Longrightarrow> string_appearance s self = add_appearance self s"
  by (simp add: string_appearance_def py_split_no_sep)

lemma hello_bytes: "map unat [0x68, 0x65, 0x6C, 0x6C, 0x6F :: byte] = py ''hello''"
  by (simp add: py_def)

text \<open>
  Claim C8. When guest memory holds \<open>b"hello\x00"\<close> at address \<open>A\<close>, \<open>read_cstring(A)\<close>
  returns \<open>"hello"\<close> and the only change to the object is that the current value of
  \<open>syscalls_counter\<close> is added to the position set of the token \<open>"hello"\<close>.
\<close>

theorem read_cstring_hello:
  assumes "holds_bytes m A [0x68, 0x65, 0x6C, 0x6C, 0x6F, 0x00]"
  shows "read_cstring m A self =
           Some (Inr (py ''hello'',
             self\<lparr>appeared_strings := (appeared_strings self)
                (py ''hello'' \<mapsto> insert (syscalls_counter self) (positions_of self (py ''hello'')))\<rparr>))"
proof -
  have "holds_bytes m A ([0x68, 0x65, 0x6C, 0x6C, 0x6F] @ [0])"
    using assms by simp
  then have "read_string_loop m A [0] [] = Some (Inr ([] @ map unat [0x68, 0x65, 0x6C, 0x6C, 0x6F :: byte]))"
    by (rule read_string_loop_narrow) simp
  then have rd: "read_string m A [0] = Some (Inr (py ''hello''))"
    by (simp only: read_string_def hello_bytes append_Nil)
  have "32 \<notin> set (py ''hello'')"
    by (simp add: py_def)
  then have "string_appearance (py ''hello'') self = add_appearance self (py ''hello'')"
    by (rule string_appearance_single)
  with rd show ?thesis
    by (simp add: read_cstring_def add_appearance_def)
qed

lemma hello_mem_holds: "holds_bytes hello_mem 0x4000 [0x68, 0x65, 0x6C, 0x6C, 0x6F, 0x00]"
  by (simp add: holds_bytes_Cons holds_bytes_Nil hello_mem_def)

theorem read_cstring_hello_witness:
  "holds_bytes hello_mem 0x4000 [0x68, 0x65, 0x6C, 0x6C, 0x6F, 0x00]
   \<and> read_cstring hello_mem 0x4000 demo_utils =
       Some (Inr (py ''hello'', demo_utils\<lparr>appeared_strings := [py ''hello'' \<mapsto> {7}]\<rparr>))"
  using read_cstring_hello [OF hello_mem_holds, of demo_utils] hello_mem_holds
  by (simp add: demo_utils_def positions_of_def)

lemma py_replace_strip_nul: "py_replace [0] [] s = filter (\<lambda>c. c \<noteq> 0) s"
proof (induction s)
  case Nil
  show ?case by (subst py_replace.simps) simp
next
  case (Cons c s)
  show ?case
    by (subst py_replace.simps) (simp add: Cons.IH)
qed

lemma encode_utf16le_ascii:
  "\<forall>c\<in>set cs. c < 0x80 \<Longrightarrow> encode UTF16LE cs = Some (wide_units cs)"
proof (induction cs)
  case Nil
  show ?case by (simp add: encode_def wide_units_def)
next
  case (Cons c cs)
  then have c: "c < 0x80" and ih: "encode_with utf16le_encode_cp cs = Some (wide_units cs)"
    by (simp_all add: encode_def)
  from c have "utf16le_encode_cp c = Some [of_nat c, 0]"
    by (simp add: utf16le_encode_cp_def is_surrogate_def utf16le_unit_def)
  with ih show ?case
    by (simp add: encode_def wide_units_def)
qed

lemma ascii_byte: "c < 0x80 \<Longrightarrow> (of_nat c :: byte) < 0x80 \<and> unat (of_nat c :: byte) = c"
  by (simp add: word_less_nat_alt unat_of_nat)

lemma read_string_loop_wide:
  assumes "holds_bytes m a (wide_units cs @ [0, 0])" and "\<forall>c\<in>set cs. 0 < c \<and> c < 0x80"
  shows "read_string_loop m a [0, 0] acc = Some (Inr (acc @ concat (map (\<lambda>c. [c, 0]) cs)))"
  using assms
proof (induction cs arbitrary: a acc)
  case Nil
  then have "m a = Some 0" "m (a + 1) = Some 0"
    by (simp_all add: holds_bytes_Cons wide_units_def)
  then show ?case
    by (subst read_string_loop.simps) (simp add: mem_read_2)
next
  case (Cons c cs)
  from Cons.prems have c: "0 < c" "c < 0x80"
    and cells: "m a = Some (of_nat c)" "m (a + 1) = Some 0"
    and rest: "holds_bytes m (a + 2) (wide_units cs @ [0, 0])" "\<forall>c\<in>set cs. 0 < c \<and> c < 0x80"
    by (simp_all add: holds_bytes_Cons wide_units_def add.assoc)
  from c have dec: "utf8_decode_ignore [of_nat c, 0] = [c, 0]"
    using ascii_byte [of c] by simp
  have "read_string_loop m a [0, 0] acc = read_string_loop m (a + 2) [0, 0] (acc @ [c, 0])"
    using cells c by (subst read_string_loop.simps) (simp add: mem_read_2 dec del: utf8_decode_ignore.simps)
  also have "\<dots> = Some (Inr ((acc @ [c, 0]) @ concat (map (\<lambda>c. [c, 0]) cs)))"
    by (rule Cons.IH [OF rest])
  finally show ?case by simp
qed

lemma strip_nul_wide: "0 \<notin> set cs \<Longrightarrow> filter (\<lambda>c. c \<noteq> 0) (concat (map (\<lambda>c. [c, 0]) cs)) = cs"
  by (induction cs) auto

text \<open>
  Claim C7, as amended. When the text consists of ASCII characters other than NUL (code
  points 1 to 127) and guest memory holds its UTF-16LE encoding followed by two zero
  bytes at \<open>A\<close>, \<open>read_wstring(A)\<close> returns exactly that text, which contains no null
  character, and records it in the string index. The buffer for \<open>"ab"\<close> is the instance
  evaluated right after the theorem.
\<close>

theorem read_wstring_ascii:
  assumes "\<forall>c\<in>set text. 0 < c \<and> c < 0x80"
    and "encode UTF16LE text = Some bs"
    and "holds_bytes m A (bs @ [0, 0])"
  shows "read_wstring m A self = Some (Inr (text, string_appearance text self))"
proof -
  from assms(1) have "encode UTF16LE text = Some (wide_units text)"
    by (intro encode_utf16le_ascii) auto
  with assms(2) have bs: "bs = wide_units text" by simp
  have "read_string_loop m A [0, 0] [] = Some (Inr ([] @ concat (map (\<lambda>c. [c, 0]) text)))"
    using assms(3) assms(1) unfolding bs by (rule read_string_loop_wide)
  then have rd: "read_string m A [0, 0] = Some (Inr (concat (map (\<lambda>c. [c, 0]) text)))"
    by (simp add: read_string_def)
  from assms(1) have "0 \<notin> set text" by auto
  then have "filter (\<lambda>c. c \<noteq> 0) (concat (map (\<lambda>c. [c, 0]) text)) = text"
    by (rule strip_nul_wide)
  then have "py_replace [0] [] (concat (map (\<lambda>c. [c, 0]) text)) = text"
    by (simp only: py_replace_strip_nul)
  with rd show ?thesis
    by (simp add: read_wstring_def Let_def)
qed

lemma wide_ab_mem_holds: "holds_bytes wide_ab_mem 0x5000 ([0x61, 0x00, 0x62, 0x00] @ [0, 0])"
  by (simp add: holds_bytes_Cons holds_bytes_Nil wide_ab_mem_def)

lemma ab_ascii: "\<forall>c\<in>set (py ''ab''). 0 < c \<and> c < 0x80"
  by (simp add: py_def)

lemma ab_encoded: "encode UTF16LE (py ''ab'') = Some [0x61, 0x00, 0x62, 0x00]"
  by (simp add: encode_def py_def utf16le_encode_cp_def is_surrogate_def utf16le_unit_def)

theorem read_wstring_ascii_witness:
  "list_all (\<lambda>c. 0 < c \<and> c < 0x80) (py ''ab'')
   \<and> encode UTF16LE (py ''ab'') = Some [0x61, 0x00, 0x62, 0x00]
   \<and> holds_bytes wide_ab_mem 0x5000 ([0x61, 0x00, 0x62, 0x00] @ [0, 0])
   \<and> read_wstring wide_ab_mem 0x5000 demo_utils =
        Some (Inr (py ''ab'', demo_utils\<lparr>appeared_strings := [py ''ab'' \<mapsto> {7}]\<rparr>))"
proof -
  have "32 \<notin> set (py ''ab'')" by (simp add: py_def)
  then have "string_appearance (py ''ab'') demo_utils = demo_utils\<lparr>appeared_strings := [py ''ab'' \<mapsto> {7}]\<rparr>"
    by (simp add: string_appearance_single add_appearance_def demo_utils_def positions_of_def)
  with read_wstring_ascii [OF ab_ascii ab_encoded wide_ab_mem_holds, of demo_utils]
    ab_ascii ab_encoded wide_ab_mem_holds
  show ?thesis by (simp add: list_all_iff)
qed

text \<open>
  Claim C7 as stated fails outside ASCII: the reader decodes each two-byte chunk as UTF-8,
  not as a UTF-16 code unit. The text consisting of U+0100 has the wide encoding \<open>00 01\<close>;
  the chunk decodes to the two characters U+0000 and U+0001, and after the null is
  stripped the result is the one-character text U+0001.
\<close>

theorem read_wstring_non_ascii_counterexample:
  "encode UTF16LE [0x100] = Some [0x00, 0x01]
   \<and> holds_bytes wide_amacron_mem 0x5000 ([0x00, 0x01] @ [0, 0])
   \<and> read_wstring wide_amacron_mem 0x5000 demo_utils = Some (Inr ([1], string_appearance [1] demo_utils))
   \<and> [1] \<noteq> [0x100 :: nat]"
proof -
  have enc: "encode UTF16LE [0x100] = Some [0x00, 0x01]"
    by (simp add: encode_def utf16le_encode_cp_def is_surrogate_def utf16le_unit_def)
  have holds: "holds_bytes wide_amacron_mem 0x5000 ([0x00, 0x01] @ [0, 0])"
    by (simp add: holds_bytes_Cons holds_bytes_Nil wide_amacron_mem_def)
  have cells: "wide_amacron_mem 0x5000 = Some 0" "wide_amacron_mem 0x5001 = Some 1"
    "wide_amacron_mem 0x5002 = Some 0" "wide_amacron_mem 0x5003 = Some 0"
    by (simp_all add: wide_amacron_mem_def)
  have "read_string_loop wide_amacron_mem 0x5000 [0, 0] [] = read_string_loop wide_amacron_mem 0x5002 [0, 0] [0, 1]"
    by (subst read_string_loop.simps) (simp add: mem_read_2 cells)
  also have "\<dots> = Some (Inr [0, 1])"
    by (subst read_string_loop.simps) (simp add: mem_read_2 cells)
  finally have "read_string wide_amacron_mem 0x5000 [0, 0] = Some (Inr [0, 1])"
    by (simp add: read_string_def)
  then have "read_wstring wide_amacron_mem 0x5000 demo_utils = Some (Inr ([1], string_appearance [1] demo_utils))"
    by (simp add: read_wstring_def Let_def py_replace_strip_nul)
  with enc holds show ?thesis by simp
qed

subsection \<open>Formatted output\<close>

lemma py_replace_absent:
  assumes "old \<noteq> []" and "hd old \<notin> set s"
  shows "py_replace old new s = s"
  using assms(2)
proof (induction s)
  case Nil
  show ?case using assms(1) by (subst py_replace.simps) simp
next
  case (Cons c s)
  have "take (length old) (c # s) \<noteq> old"
  proof
    assume "take (length old) (c # s) = old"
    then have "set old \<subseteq> set (c # s)"
      by (metis set_take_subset)
    moreover have "hd old \<in> set old"
      using assms(1) by simp
    ultimately show False
      using Cons.prems by auto
  qed
  moreover from Cons have "py_replace old new s = s" by simp
  ultimately show ?case
    using assms(1) by (subst py_replace.simps) simp
qed

lemma common_printf_plain:
  assumes "37 \<notin> set format"
  shows "common_printf conv m format [] wstring self = Some (Inr (format, self))"
proof -
  have split: "tl (py_split 37 format) = []"
    using assms by (simp add: py_split_no_sep)
  have "hd (py ''%llx'') = 37" "hd (py ''%p'') = 37" "py ''%llx'' \<noteq> []" "py ''%p'' \<noteq> []"
    by (simp_all add: py_def)
  with assms have repl: "py_replace (py ''%llx'') (py ''%x'') format = format"
    "py_replace (py ''%p'') (py ''%#x'') format = format"
    by (simp_all add: py_replace_absent)
  show ?thesis
    using assms by (simp add: common_printf_def split repl py_format_def Let_def)
qed

lemma encode_with_snoc:
  "encode_with f (s @ [c]) =
     (case encode_with f s of None \<Rightarrow> None
      | Some bs \<Rightarrow> (case f c of None \<Rightarrow> None | Some b \<Rightarrow> Some (bs @ b)))"
  by (induction s) (auto split: option.splits)

lemma encode_nul:
  "encode (if wstring then UTF16LE else UTF8) (s @ [0]) =
     map_option (\<lambda>bs. bs @ nul_bytes wstring) (encode (if wstring then UTF16LE else UTF8) s)"
  by (auto simp: encode_def encode_with_snoc nul_bytes_def utf8_encode_cp_def
      utf16le_encode_cp_def is_surrogate_def utf16le_unit_def split: option.splits)

lemma mem_write_holds: "mem_write m a bs = Some m' \<Longrightarrow> holds_bytes m' a bs"
  by (auto simp: mem_write_def holds_bytes_iff split: if_splits)

text \<open>
  Claim C9. For a format without \<open>%\<close> and an empty argument list the formatting step
  returns the format itself and leaves the object unchanged. \<open>sprintf\<close> then writes the
  encoding of the format followed by the encoded \<open>'\x00'\<close> to the buffer (UTF-16LE when
  \<open>wstring\<close>, UTF-8 otherwise) and returns the number of characters of the format;
  \<open>printf\<close> appends the UTF-8 encoding of the format to the output stream and returns the
  same count. The only other outcomes are the exceptions of Python's encoder (a lone
  surrogate in the format) and of a write to unmapped guest memory.
\<close>

theorem printf_family_plain_copy:
  assumes "37 \<notin> set format"
  shows "common_printf conv m format [] wstring self = Some (Inr (format, self))
    \<and> sprintf conv m buff format [] wstring self =
        (case encode (if wstring then UTF16LE else UTF8) format of
           None \<Rightarrow> Some (Inl UnicodeEncodeError)
         | Some bs \<Rightarrow>
             (case mem_write m buff (bs @ nul_bytes wstring) of
                None \<Rightarrow> Some (Inl (UcError UC_ERR_WRITE_UNMAPPED))
              | Some m' \<Rightarrow> Some (Inr (int (length format), m', self))))
    \<and> (\<forall>bs m'. encode (if wstring then UTF16LE else UTF8) format = Some bs
          \<and> mem_write m buff (bs @ nul_bytes wstring) = Some m'
          \<longrightarrow> sprintf conv m buff format [] wstring self = Some (Inr (int (length format), m', self))
              \<and> holds_bytes m' buff (bs @ nul_bytes wstring))
    \<and> printf conv m stdout format [] wstring self =
        (case encode UTF8 format of
           None \<Rightarrow> Some (Inl UnicodeEncodeError)
         | Some bs \<Rightarrow> Some (Inr (int (length format), stdout @ bs, self)))"
proof -
  note cp = common_printf_plain [OF assms, of conv m wstring self]
  have sp: "sprintf conv m buff format [] wstring self =
        (case encode (if wstring then UTF16LE else UTF8) format of
           None \<Rightarrow> Some (Inl UnicodeEncodeError)
         | Some bs \<Rightarrow>
             (case mem_write m buff (bs @ nul_bytes wstring) of
                None \<Rightarrow> Some (Inl (UcError UC_ERR_WRITE_UNMAPPED))
              | Some m' \<Rightarrow> Some (Inr (int (length format), m', self))))"
    by (simp add: sprintf_def cp Let_def encode_nul split: option.splits)
  have pr: "printf conv m stdout format [] wstring self =
        (case encode UTF8 format of
           None \<Rightarrow> Some (Inl UnicodeEncodeError)
         | Some bs \<Rightarrow> Some (Inr (int (length format), stdout @ bs, self)))"
    by (simp add: printf_def cp Let_def)
  have ok: "sprintf conv m buff format [] wstring self = Some (Inr (int (length format), m', self))
              \<and> holds_bytes m' buff (bs @ nul_bytes wstring)"
    if "encode (if wstring then UTF16LE else UTF8) format = Some bs
          \<and> mem_write m buff (bs @ nul_bytes wstring) = Some m'" for bs m'
    using that mem_write_holds [of m buff "bs @ nul_bytes wstring" m'] by (simp add: sp)
  from cp sp pr ok show ?thesis
    by blast
qed

lemma scratch_mem_cells: "None \<notin> set (mem_cells scratch_mem 0x6000 (Suc (Suc (Suc 0))))"
  by (simp add: mem_cells_def scratch_mem_def)

theorem printf_family_plain_copy_witness:
  "37 \<notin> set (py ''ok'')
   \<and> common_printf no_formatter scratch_mem (py ''ok'') [] False demo_utils = Some (Inr (py ''ok'', demo_utils))
   \<and> encode UTF8 (py ''ok'') = Some [0x6F, 0x6B]
   \<and> mem_write scratch_mem 0x6000 ([0x6F, 0x6B] @ nul_bytes False) = Some ok_mem
   \<and> sprintf no_formatter scratch_mem 0x6000 (py ''ok'') [] False demo_utils = Some (Inr (2, ok_mem, demo_utils))
   \<and> holds_bytes ok_mem 0x6000 [0x6F, 0x6B, 0x00]
   \<and> printf no_formatter scratch_mem [0x3E] (py ''ok'') [] False demo_utils = Some (Inr (2, [0x3E, 0x6F, 0x6B], demo_utils))"
proof -
  have no: "37 \<notin> set (py ''ok'')"
    by (simp add: py_def)
  note T = printf_family_plain_copy [OF no, of no_formatter scratch_mem False demo_utils "0x6000" "[0x3E]"]
  have enc: "encode UTF8 (py ''ok'') = Some [0x6F, 0x6B]"
    by (simp add: encode_def py_def utf8_encode_cp_def)
  have len: "length (py ''ok'') = 2"
    by (simp add: py_def)
  have w: "mem_write scratch_mem 0x6000 ([0x6F, 0x6B] @ nul_bytes False) = Some ok_mem"
    using scratch_mem_cells by (simp add: mem_write_def nul_bytes_def ok_mem_def)
  from T enc w have "sprintf no_formatter scratch_mem 0x6000 (py ''ok'') [] False demo_utils = Some (Inr (int (length (py ''ok'')), ok_mem, demo_utils))
       \<and> holds_bytes ok_mem 0x6000 ([0x6F, 0x6B] @ nul_bytes False)"
    by simp
  then have sp: "sprintf no_formatter scratch_mem 0x6000 (py ''ok'') [] False demo_utils = Some (Inr (2, ok_mem, demo_utils))
       \<and> holds_bytes ok_mem 0x6000 [0x6F, 0x6B, 0x00]"
    by (simp add: len nul_bytes_def)
  from T enc have pr: "printf no_formatter scratch_mem [0x3E] (py ''ok'') [] False demo_utils = Some (Inr (2, [0x3E, 0x6F, 0x6B], demo_utils))"
    by (simp add: len)
  from T have cp: "common_printf no_formatter scratch_mem (py ''ok'') [] False demo_utils = Some (Inr (py ''ok'', demo_utils))"
    by blast
  from no cp enc w sp pr show ?thesis
    by blast
qed

subsection \<open>Device I/O requests: what each step does to the trace\<close>

lemma bndE:
  assumes "bnd m f s = Inr r"
  obtains a s' where "m s = Inr (a, s')" and "f a s' = Inr r"
  using assms by (auto simp: bnd_def split: sum.splits)

lemma bnd_Inr: "m s = Inr (a, s') \<Longrightarrow> bnd m f s = f a s'"
  by (simp add: bnd_def)

lemma alloc_append_Inr:
  assumes "alloc_append ql n s = Inr (a, s')"
  shows "trace s' = trace s @ [HeapAlloc n a] \<and> alloc_addr s' = alloc_addr s @ [a]"
  using assms by (auto simp: alloc_append_def split: sum.splits)

lemma write_mem_Inr:
  assumes "write_mem a bs s = Inr (u, s')"
  shows "trace s' = trace s @ [MemWrite a bs] \<and> alloc_addr s' = alloc_addr s"
  using assms by (auto simp: write_mem_def split: option.splits)

lemma read_mem_Inr:
  assumes "read_mem a n s = Inr (bs, s')"
  shows "s' = s \<and> mem_read (mem s) a n = Some bs"
  using assms by (auto simp: read_mem_def split: option.splits)

lemma build_mdl_Inr:
  assumes "build_mdl ql n None s = Inr (mdl, s')"
  shows "trace s' = trace s @ [HeapAlloc n (MappedSystemVa mdl)]
       \<and> alloc_addr s' = alloc_addr s @ [MappedSystemVa mdl]
       \<and> mdl = \<lparr>MappedSystemVa = MappedSystemVa mdl, StartVa = MappedSystemVa mdl,
                ByteOffset = 0, ByteCount = n\<rparr>"
  using assms
  by (auto simp: build_mdl_def Let_def ret_def MDL_new_def elim!: bndE dest!: alloc_append_Inr)

lemma dispatch_Inr:
  assumes "dispatch ql entry a s = Inr (u, s')"
  shows "trace s' = trace s @ [Run entry] \<and> alloc_addr s' = alloc_addr s"
  using assms
  by (auto simp: dispatch_def split: sum.splits prod.splits option.splits exn.splits)

lemma foldl_free_one:
  "trace (foldl (free_one ql) s as) = trace s @ map HeapFree as
   \<and> alloc_addr (foldl (free_one ql) s as) = alloc_addr s"
  by (induction as arbitrary: s) (auto simp: free_one_def split: prod.splits)

lemma free_all_trace:
  "trace (free_all ql s) = trace s @ map HeapFree (alloc_addr s)"
  "alloc_addr (free_all ql s) = alloc_addr s"
  by (simp_all add: free_all_def foldl_free_one)

lemma ioctl_build_Inr:
  assumes "ioctl_build ql ((devicetype, function, method, access), output_buffer_size, in_buffer) s
             = Inr (loc, s')"
  shows "\<exists>stack.
     trace s' = trace s @
       [HeapAlloc (int (length in_buffer)) (input_buffer_addr loc),
        MemWrite (input_buffer_addr loc) in_buffer,
        HeapAlloc output_buffer_size (output_buffer_addr loc),
        HeapAlloc (sizeof_IRP ql (struct_width ql)) (irp_addr loc),
        HeapAlloc (sizeof_IO_STACK_LOCATION ql (struct_width ql)) (irpstack_addr loc),
        MemWrite (irpstack_addr loc) (bytes_IO_STACK_LOCATION ql (struct_width ql) stack),
        HeapAlloc (max (int (length in_buffer)) output_buffer_size) (system_buffer_addr loc),
        MemWrite (system_buffer_addr loc) in_buffer] @
       (case mdl_built loc of
          None \<Rightarrow> []
        | Some mdl \<Rightarrow>
            [HeapAlloc output_buffer_size (MappedSystemVa mdl),
             HeapAlloc (sizeof_MDL ql (struct_width ql)) (MdlAddress (irp_built loc)),
             MemWrite (MdlAddress (irp_built loc)) (bytes_MDL ql (struct_width ql) mdl)]) @
       [MemWrite (irp_addr loc) (bytes_IRP ql (struct_width ql) (irp_built loc))]
   \<and> alloc_addr s' = alloc_addr s @
       [input_buffer_addr loc, output_buffer_addr loc, irp_addr loc, irpstack_addr loc,
        system_buffer_addr loc] @
       (case mdl_built loc of
          None \<Rightarrow> []
        | Some mdl \<Rightarrow> [MappedSystemVa mdl, MdlAddress (irp_built loc)])
   \<and> ctl_method loc = method
   \<and> (mdl_built loc \<noteq> None \<longleftrightarrow> method = METHOD_IN_DIRECT \<or> method = METHOD_OUT_DIRECT)
   \<and> SystemBuffer (irp_built loc) = system_buffer_addr loc
   \<and> irpstack (irp_built loc) = irpstack_addr loc
   \<and> UserBuffer (irp_built loc) = (if method = METHOD_NEITHER then output_buffer_addr loc else 0)"
proof (cases "method = METHOD_IN_DIRECT \<or> method = METHOD_OUT_DIRECT")
  case True
  then have nn: "method \<noteq> METHOD_NEITHER"
    by (auto simp: METHOD_IN_DIRECT_def METHOD_OUT_DIRECT_def METHOD_NEITHER_def)
  show ?thesis
    using assms True nn
    by (auto simp: ioctl_build_def Let_def ret_def IRP_new_def
        elim!: bndE dest!: alloc_append_Inr write_mem_Inr build_mdl_Inr)
next
  case False
  show ?thesis
    using assms False
    by (auto simp: ioctl_build_def Let_def ret_def IRP_new_def
        elim!: bndE dest!: alloc_append_Inr write_mem_Inr build_mdl_Inr)
qed

subsection \<open>Rejected and completed requests\<close>

text \<open>
  Claim C1, as amended. When the DEVICE_CONTROL entry of the dispatch table is the null
  address, \<open>ioctl\<close> on a Windows guest returns the triple \<open>(None, None, None)\<close>, and on any
  other guest Python's \<open>None\<close>; in both cases the machine is left as it was, nothing is
  allocated on the guest heap, nothing is written to guest memory and nothing is
  emulated (the trace and \<open>alloc_addr\<close> are empty).
\<close>

theorem ioctl_unregistered_no_effect:
  assumes "driver_MajorFunction ql IRP_MJ_DEVICE_CONTROL = 0"
  shows "ioctl ql ps mx =
           Inr (if ostype ql = WINDOWS then ReturnsTriple None None None else ReturnsNone,
                \<lparr>mem = fst mx, ext = snd mx, alloc_addr = [], trace = []\<rparr>)"
  using assms by (simp add: ioctl_def init_state_def)

theorem ioctl_unregistered_no_effect_witness:
  "driver_MajorFunction demo_ql_unregistered IRP_MJ_DEVICE_CONTROL = 0
   \<and> ioctl demo_ql_unregistered ((0x22, 0x800, METHOD_BUFFERED, 0), 4, [0x41]) demo_machine =
       Inr (ReturnsTriple None None None,
            \<lparr>mem = fst demo_machine, ext = snd demo_machine, alloc_addr = [], trace = []\<rparr>)"
proof -
  have h: "driver_MajorFunction demo_ql_unregistered IRP_MJ_DEVICE_CONTROL = 0"
    by (simp add: demo_ql_unregistered_def)
  have w: "ostype demo_ql_unregistered = WINDOWS"
    by (simp add: demo_ql_unregistered_def demo_ql_def)
  from ioctl_unregistered_no_effect [OF h, of "((0x22, 0x800, METHOD_BUFFERED, 0), 4, [0x41])" demo_machine] h w
  show ?thesis by simp
qed

text \<open>
  Claim C1 as stated fails in its third component: the rejected request returns \<open>None\<close>
  there, not an empty byte string.
\<close>

theorem ioctl_unregistered_counterexample:
  "driver_MajorFunction demo_ql_unregistered IRP_MJ_DEVICE_CONTROL = 0
   \<and> map_sum id fst (ioctl demo_ql_unregistered ((0x22, 0x800, METHOD_BUFFERED, 0), 4, [0x41]) demo_machine)
       = Inr (ReturnsTriple None None None)
   \<and> ReturnsTriple None None None \<noteq> ReturnsTriple None None (Some [])"
  by (simp add: ioctl_def demo_ql_unregistered_def demo_ql_def)

text \<open>
  Claim C10. Whenever a device-write request is not rejected, its structures are built,
  the dispatch completes (normally, or by a fault that \<open>verify_ret\<close> accepts) and the IRP
  can be read back, \<open>io_Write\<close> returns \<open>True\<close> together with the information count of the
  IRP read back after the dispatch, whatever status that IRP carries, and then releases
  its allocations.
\<close>

theorem io_Write_success_flag:
  assumes "\<not> (ostype ql = WINDOWS \<and> driver_MajorFunction ql IRP_MJ_WRITE = 0)"
    and "io_Write_build ql in_buffer (init_state mx) = Inr (irp_address, s1)"
    and "dispatch ql (driver_MajorFunction ql IRP_MJ_WRITE) irp_address s1 = Inr ((), s2)"
    and "mem_read (mem s2) irp_address (sizeof_IRP ql (struct_width ql)) = Some irp_buffer"
  shows "io_Write ql in_buffer mx =
           Inr ((True, Some (Information (IRP_from_buffer ql (struct_width ql) irp_buffer))),
                free_all ql s2)"
  using assms
  by (simp add: io_Write_def bnd_Inr read_irp_def read_mem_def ret_def bnd_def)

lemma isr_eq: "isl x = False \<Longrightarrow> x = Inr (projr x)"
  by (cases x) auto

theorem io_Write_success_flag_witness:
  "map_sum id fst (io_Write demo_ql [0x50, 0x41, 0x59] demo_machine) = Inr (True, Some 7)
   \<and> Status (IRP_from_buffer demo_ql (struct_width demo_ql) demo_write_irp_buffer) = - 0x3FFFFFFF"
proof -
  have cfg: "\<not> (ostype demo_ql = WINDOWS \<and> driver_MajorFunction demo_ql IRP_MJ_WRITE = 0)"
    "driver_MajorFunction demo_ql IRP_MJ_WRITE = 0x401000"
    "sizeof_IRP demo_ql (struct_width demo_ql) = 24"
    by (simp_all add: demo_ql_def IRP_MJ_WRITE_def)
  have "isl demo_write_built = False"
    unfolding demo_write_built_def by code_simp
  then have b: "io_Write_build demo_ql [0x50, 0x41, 0x59] (init_state demo_machine)
                  = Inr (fst (projr demo_write_built), snd (projr demo_write_built))"
    unfolding demo_write_built_def by (metis isr_eq prod.collapse)
  have "isl demo_write_dispatched = False"
    unfolding demo_write_dispatched_def demo_write_built_def by code_simp
  then have d: "dispatch demo_ql (driver_MajorFunction demo_ql IRP_MJ_WRITE) (fst (projr demo_write_built)) (snd (projr demo_write_built))
                  = Inr ((), snd (projr demo_write_dispatched))"
    unfolding cfg demo_write_dispatched_def by (metis isr_eq prod.collapse old.unit.exhaust)
  have "mem_read (mem (snd (projr demo_write_dispatched))) (fst (projr demo_write_built)) 24 \<noteq> None"
    unfolding demo_write_dispatched_def demo_write_built_def by code_simp
  then have r: "mem_read (mem (snd (projr demo_write_dispatched))) (fst (projr demo_write_built)) (sizeof_IRP demo_ql (struct_width demo_ql)) = Some demo_write_irp_buffer"
    unfolding cfg demo_write_irp_buffer_def by simp
  have info: "Information (IRP_from_buffer demo_ql (struct_width demo_ql) demo_write_irp_buffer) = 7"
    unfolding demo_write_irp_buffer_def demo_write_dispatched_def demo_write_built_def by code_simp
  have status: "Status (IRP_from_buffer demo_ql (struct_width demo_ql) demo_write_irp_buffer) = - 0x3FFFFFFF"
    unfolding demo_write_irp_buffer_def demo_write_dispatched_def demo_write_built_def by code_simp
  from io_Write_success_flag [OF cfg(1) b d r] info status
  show ?thesis by simp
qed

subsection \<open>Release of the scratch allocations\<close>

lemma allocated_append: "allocated (xs @ ys) = allocated xs @ allocated ys"
  by (induction xs rule: allocated.induct) auto

lemma freed_append: "freed (xs @ ys) = freed xs @ freed ys"
  by (induction xs rule: freed.induct) auto

lemma freed_map_HeapFree: "freed (map HeapFree as) = as"
  by (induction as) auto

lemma allocated_map_HeapFree: "allocated (map HeapFree as) = []"
  by (induction as) auto

lemma tracked_init: "tracked (init_state mx)"
  by (simp add: tracked_def init_state_def)

lemma dispatch_tracked:
  "dispatch ql entry a s = Inr (u, s') \<Longrightarrow> tracked s \<Longrightarrow> tracked s'"
  by (drule dispatch_Inr) (simp add: tracked_def allocated_append freed_append)

lemma ioctl_build_tracked:
  assumes "ioctl_build ql ps s = Inr (loc, s')" and "tracked s"
  shows "tracked s'"
proof -
  obtain code n bs where "ps = (code, n, bs)"
    by (cases ps) auto
  moreover obtain dt fn m ac where "code = (dt, fn, m, ac)"
    by (cases code) auto
  ultimately have ps: "ps = ((dt, fn, m, ac), n, bs)"
    by simp
  from ioctl_build_Inr [OF assms(1) [unfolded ps]] assms(2)
  show ?thesis
    by (auto simp: tracked_def allocated_append freed_append split: option.splits)
qed

lemma io_Write_build_tracked:
  assumes "io_Write_build ql in_buffer s = Inr (a, s')" and "tracked s"
  shows "tracked s'"
  using assms
  by (auto simp: io_Write_build_def Let_def ret_def tracked_def allocated_append freed_append
      split: if_splits
      elim!: bndE dest!: read_mem_Inr alloc_append_Inr write_mem_Inr build_mdl_Inr)

lemma read_irp_Inr:
  assumes "read_irp ql a s = Inr (irp, s')"
  shows "s' = s"
  using assms by (auto simp: read_irp_def ret_def elim!: bndE dest!: read_mem_Inr)

lemma read_output_Inr:
  assumes "read_output loc irp s = Inr (out, s')"
  shows "s' = s"
  using assms
  by (auto simp: read_output_def ret_def split: if_splits option.splits
      elim!: bndE dest!: read_mem_Inr)

lemma free_all_init: "free_all ql (init_state mx) = init_state mx"
  by (simp add: free_all_def init_state_def)

lemma free_all_machine:
  "(mem (foldl (free_one ql) s as), ext (foldl (free_one ql) s as))
     = foldl (\<lambda>mx a. heap_free ql a mx) (mem s, ext s) as"
proof (induction as arbitrary: s)
  case Nil
  show ?case by simp
next
  case (Cons a as)
  obtain m x where h: "heap_free ql a (mem s, ext s) = (m, x)"
    by (cases "heap_free ql a (mem s, ext s)") auto
  then have "mem (free_one ql s a) = m" "ext (free_one ql s a) = x"
    by (simp_all add: free_one_def)
  with Cons.IH [of "free_one ql s a"] h show ?case
    by simp
qed

lemma released_from_free_all: "released_from ql s (free_all ql s)"
proof -
  have "(mem (free_all ql s), ext (free_all ql s))
          = foldl (\<lambda>mx a. heap_free ql a mx) (mem s, ext s) (alloc_addr s)"
    unfolding free_all_def by (rule free_all_machine)
  then show ?thesis
    by (simp add: released_from_def free_all_trace)
qed

lemma io_Write_phases:
  assumes "io_Write ql in_buffer mx = Inr (r, s')"
    and "\<not> (ostype ql = WINDOWS \<and> driver_MajorFunction ql IRP_MJ_WRITE = 0)"
  obtains a s1 s2 where "io_Write_build ql in_buffer (init_state mx) = Inr (a, s1)"
    and "dispatch ql (driver_MajorFunction ql IRP_MJ_WRITE) a s1 = Inr ((), s2)"
    and "s' = free_all ql s2"
proof -
  from assms obtain a s1 u s2 irp s3
    where b: "io_Write_build ql in_buffer (init_state mx) = Inr (a, s1)"
      and d: "dispatch ql (driver_MajorFunction ql IRP_MJ_WRITE) a s1 = Inr (u, s2)"
      and r: "read_irp ql a s2 = Inr (irp, s3)"
      and f: "s' = free_all ql s3"
    by (auto simp: io_Write_def elim!: bndE)
  from r have "s3 = s2"
    by (rule read_irp_Inr)
  with b d f that show ?thesis
    by simp
qed

lemma ioctl_phases:
  assumes "ioctl ql ps mx = Inr (r, s')"
    and "ostype ql = WINDOWS \<and> driver_MajorFunction ql IRP_MJ_DEVICE_CONTROL \<noteq> 0"
  obtains loc s1 s2 where "ioctl_build ql ps (init_state mx) = Inr (loc, s1)"
    and "dispatch ql (driver_MajorFunction ql IRP_MJ_DEVICE_CONTROL) (irp_addr loc) s1 = Inr ((), s2)"
    and "s' = free_all ql s2"
proof -
  from assms obtain loc s1 u s2 irp s3 out s4
    where b: "ioctl_build ql ps (init_state mx) = Inr (loc, s1)"
      and d: "dispatch ql (driver_MajorFunction ql IRP_MJ_DEVICE_CONTROL) (irp_addr loc) s1 = Inr (u, s2)"
      and r: "read_irp ql (irp_addr loc) s2 = Inr (irp, s3)"
      and o: "read_output loc irp s3 = Inr (out, s4)"
      and f: "s' = free_all ql s4"
    by (auto simp: ioctl_def elim!: bndE)
  from r o have "s4 = s2"
    using read_irp_Inr read_output_Inr by blast
  with b d f that show ?thesis
    by simp
qed

text \<open>
  Claim C2, as amended. When \<open>io_Write\<close> or \<open>ioctl\<close> returns after a dispatch (normal, or
  ended by a fault that \<open>verify_ret\<close> accepted), the machine it leaves is the machine after
  the dispatch with \<open>heap.free\<close> applied once for every entry of \<open>alloc_addr\<close>, in the
  order of the list; \<open>alloc_addr\<close> holds exactly the addresses the heap returned during the
  request, and nothing was freed before the dispatch ended. So every entry is freed
  once, and an address is freed as often as the heap returned it: once when it was
  returned once. A rejected request allocates and frees nothing.
\<close>

theorem scratch_allocations_freed_per_entry:
  "(io_Write ql in_buffer mx = Inr (r, s') \<longrightarrow>
      (ostype ql = WINDOWS \<and> driver_MajorFunction ql IRP_MJ_WRITE = 0 \<and> s' = init_state mx)
      \<or> (\<exists>a s1 s2.
            io_Write_build ql in_buffer (init_state mx) = Inr (a, s1)
          \<and> dispatch ql (driver_MajorFunction ql IRP_MJ_WRITE) a s1 = Inr ((), s2)
          \<and> allocated (trace s2) = alloc_addr s2 \<and> freed (trace s2) = []
          \<and> released_from ql s2 s'))
   \<and> (ioctl ql ps mx = Inr (r', s'') \<longrightarrow>
      (\<not> (ostype ql = WINDOWS \<and> driver_MajorFunction ql IRP_MJ_DEVICE_CONTROL \<noteq> 0)
         \<and> s'' = init_state mx)
      \<or> (\<exists>loc s1 s2.
            ioctl_build ql ps (init_state mx) = Inr (loc, s1)
          \<and> dispatch ql (driver_MajorFunction ql IRP_MJ_DEVICE_CONTROL) (irp_addr loc) s1 = Inr ((), s2)
          \<and> allocated (trace s2) = alloc_addr s2 \<and> freed (trace s2) = []
          \<and> released_from ql s2 s''))
   \<and> (io_Write ql in_buffer mx = Inr (r, s') \<or> ioctl ql ps mx = Inr (r', s') \<longrightarrow>
        freed (trace s') = alloc_addr s' \<and> allocated (trace s') = alloc_addr s')"
proof (intro conjI; rule impI)
  assume w: "io_Write ql in_buffer mx = Inr (r, s')"
  show "(ostype ql = WINDOWS \<and> driver_MajorFunction ql IRP_MJ_WRITE = 0 \<and> s' = init_state mx)
      \<or> (\<exists>a s1 s2.
            io_Write_build ql in_buffer (init_state mx) = Inr (a, s1)
          \<and> dispatch ql (driver_MajorFunction ql IRP_MJ_WRITE) a s1 = Inr ((), s2)
          \<and> allocated (trace s2) = alloc_addr s2 \<and> freed (trace s2) = []
          \<and> released_from ql s2 s')"
  proof (cases "ostype ql = WINDOWS \<and> driver_MajorFunction ql IRP_MJ_WRITE = 0")
    case True
    with w show ?thesis
      by (simp add: io_Write_def)
  next
    case False
    from w False obtain a s1 s2
      where b: "io_Write_build ql in_buffer (init_state mx) = Inr (a, s1)"
        and d: "dispatch ql (driver_MajorFunction ql IRP_MJ_WRITE) a s1 = Inr ((), s2)"
        and f: "s' = free_all ql s2"
      by (rule io_Write_phases)
    from b have "tracked s1"
      by (rule io_Write_build_tracked) (rule tracked_init)
    with d have "tracked s2"
      by (rule dispatch_tracked)
    with b d f show ?thesis
      using released_from_free_all [of ql s2] by (auto simp: tracked_def)
  qed
next
  assume c: "ioctl ql ps mx = Inr (r', s'')"
  show "(\<not> (ostype ql = WINDOWS \<and> driver_MajorFunction ql IRP_MJ_DEVICE_CONTROL \<noteq> 0)
         \<and> s'' = init_state mx)
      \<or> (\<exists>loc s1 s2.
            ioctl_build ql ps (init_state mx) = Inr (loc, s1)
          \<and> dispatch ql (driver_MajorFunction ql IRP_MJ_DEVICE_CONTROL) (irp_addr loc) s1 = Inr ((), s2)
          \<and> allocated (trace s2) = alloc_addr s2 \<and> freed (trace s2) = []
          \<and> released_from ql s2 s'')"
  proof (cases "ostype ql = WINDOWS \<and> driver_MajorFunction ql IRP_MJ_DEVICE_CONTROL \<noteq> 0")
    case False
    with c have "s'' = init_state mx"
      by (auto simp: ioctl_def split: if_splits)
    with False show ?thesis
      by blast
  next
    case True
    from c True obtain loc s1 s2
      where b: "ioctl_build ql ps (init_state mx) = Inr (loc, s1)"
        and d: "dispatch ql (driver_MajorFunction ql IRP_MJ_DEVICE_CONTROL) (irp_addr loc) s1 = Inr ((), s2)"
        and f: "s'' = free_all ql s2"
      by (rule ioctl_phases)
    from b have "tracked s1"
      by (rule ioctl_build_tracked) (rule tracked_init)
    with d have "tracked s2"
      by (rule dispatch_tracked)
    with b d f show ?thesis
      using released_from_free_all [of ql s2] by (auto simp: tracked_def)
  qed
next
  assume "io_Write ql in_buffer mx = Inr (r, s') \<or> ioctl ql ps mx = Inr (r', s')"
  then obtain s2 where t: "tracked s2" and f: "s' = free_all ql s2"
  proof
    assume w: "io_Write ql in_buffer mx = Inr (r, s')"
    show ?thesis
    proof (cases "ostype ql = WINDOWS \<and> driver_MajorFunction ql IRP_MJ_WRITE = 0")
      case True
      with w have "s' = init_state mx"
        by (simp add: io_Write_def)
      then have "s' = free_all ql (init_state mx)"
        by (simp add: free_all_init)
      with tracked_init that show ?thesis
        by blast
    next
      case False
      from w False obtain a s1 s2
        where b: "io_Write_build ql in_buffer (init_state mx) = Inr (a, s1)"
          and d: "dispatch ql (driver_MajorFunction ql IRP_MJ_WRITE) a s1 = Inr ((), s2)"
          and f: "s' = free_all ql s2"
        by (rule io_Write_phases)
      from b have "tracked s1"
        by (rule io_Write_build_tracked) (rule tracked_init)
      with d have "tracked s2"
        by (rule dispatch_tracked)
      with f that show ?thesis
        by blast
    qed
  next
    assume c: "ioctl ql ps mx = Inr (r', s')"
    show ?thesis
    proof (cases "ostype ql = WINDOWS \<and> driver_MajorFunction ql IRP_MJ_DEVICE_CONTROL \<noteq> 0")
      case False
      with c have "s' = init_state mx"
        by (auto simp: ioctl_def split: if_splits)
      then have "s' = free_all ql (init_state mx)"
        by (simp add: free_all_init)
      with tracked_init that show ?thesis
        by blast
    next
      case True
      from c True obtain loc s1 s2
        where b: "ioctl_build ql ps (init_state mx) = Inr (loc, s1)"
          and d: "dispatch ql (driver_MajorFunction ql IRP_MJ_DEVICE_CONTROL) (irp_addr loc) s1 = Inr ((), s2)"
          and f: "s' = free_all ql s2"
        by (rule ioctl_phases)
      from b have "tracked s1"
        by (rule ioctl_build_tracked) (rule tracked_init)
      with d have "tracked s2"
        by (rule dispatch_tracked)
      with f that show ?thesis
        by blast
    qed
  qed
  have tr: "trace s' = trace s2 @ map HeapFree (alloc_addr s')"
    and al: "alloc_addr s' = alloc_addr s2"
    by (simp_all add: f free_all_trace)
  from t have pre: "freed (trace s2) = []" "allocated (trace s2) = alloc_addr s'"
    by (simp_all add: tracked_def al)
  show "freed (trace s') = alloc_addr s' \<and> allocated (trace s') = alloc_addr s'"
    by (simp add: tr freed_append freed_map_HeapFree allocated_append allocated_map_HeapFree pre)
qed

theorem scratch_allocations_freed_per_entry_witness:
  "isl bump_write_result = False
   \<and> alloc_addr (snd (projr bump_write_result)) = [0x1000, 0x1018, 0x1030]
   \<and> snd (ext (snd (projr bump_write_result))) = [0x1000, 0x1018, 0x1030]
   \<and> (\<exists>a s1 s2.
         io_Write_build bump_ql [0x50, 0x41, 0x59] (init_state bump_machine) = Inr (a, s1)
       \<and> dispatch bump_ql 0x401000 a s1 = Inr ((), s2)
       \<and> released_from bump_ql s2 (snd (projr bump_write_result)))"
proof -
  have cfg: "driver_MajorFunction bump_ql IRP_MJ_WRITE = 0x401000"
    by (simp add: bump_ql_def)
  have i: "isl bump_write_result = False"
    unfolding bump_write_result_def by code_simp
  then have eq: "io_Write bump_ql [0x50, 0x41, 0x59] bump_machine
               = Inr (fst (projr bump_write_result), snd (projr bump_write_result))"
    unfolding bump_write_result_def by (metis isr_eq prod.collapse)
  note T = scratch_allocations_freed_per_entry
    [where ql = bump_ql and in_buffer = "[0x50, 0x41, 0x59]" and mx = bump_machine
       and r = "fst (projr bump_write_result)" and s' = "snd (projr bump_write_result)"]
  from T eq have "(ostype bump_ql = WINDOWS \<and> driver_MajorFunction bump_ql IRP_MJ_WRITE = 0
        \<and> snd (projr bump_write_result) = init_state bump_machine)
      \<or> (\<exists>a s1 s2.
            io_Write_build bump_ql [0x50, 0x41, 0x59] (init_state bump_machine) = Inr (a, s1)
          \<and> dispatch bump_ql (driver_MajorFunction bump_ql IRP_MJ_WRITE) a s1 = Inr ((), s2)
          \<and> allocated (trace s2) = alloc_addr s2 \<and> freed (trace s2) = []
          \<and> released_from bump_ql s2 (snd (projr bump_write_result)))"
    by blast
  then have ph: "\<exists>a s1 s2.
         io_Write_build bump_ql [0x50, 0x41, 0x59] (init_state bump_machine) = Inr (a, s1)
       \<and> dispatch bump_ql 0x401000 a s1 = Inr ((), s2)
       \<and> released_from bump_ql s2 (snd (projr bump_write_result))"
    unfolding cfg by auto
  have al: "alloc_addr (snd (projr bump_write_result)) = [0x1000, 0x1018, 0x1030]"
    unfolding bump_write_result_def by code_simp
  have fr: "snd (ext (snd (projr bump_write_result))) = [0x1000, 0x1018, 0x1030]"
    unfolding bump_write_result_def by code_simp
  from i al fr ph show ?thesis
    by blast
qed

text \<open>
  Claim C2 as stated fails when the heap returns an address twice within one request.
  On the second heap, \<open>ioctl\<close> with no input bytes and an output size of 4 allocates the
  input buffer (size 0) and the output buffer at the same address \<open>0x1000\<close>; the address
  is appended twice and the heap's own record shows it freed twice.
\<close>

theorem scratch_allocations_freed_twice_counterexample:
  "isl bump_ioctl_result = False
   \<and> alloc_addr (snd (projr bump_ioctl_result)) = [0x1000, 0x1000, 0x1004, 0x101C, 0x1034]
   \<and> snd (ext (snd (projr bump_ioctl_result))) = [0x1000, 0x1000, 0x1004, 0x101C, 0x1034]
   \<and> count_list (snd (ext (snd (projr bump_ioctl_result)))) 0x1000 = 2
   \<and> count_list (snd (ext (snd (projr bump_ioctl_result)))) 0x1000 \<noteq> 1"
  unfolding bump_ioctl_result_def by code_simp

subsection \<open>Allocations of a buffered device-control request\<close>





subsection \<open>Output payload of a device-control request\<close>

lemma read_irp_eq:
  "mem_read (mem s) a (sizeof_IRP ql (struct_width ql)) = Some buf \<Longrightarrow>
   read_irp ql a s = Inr (IRP_from_buffer ql (struct_width ql) buf, s)"
  by (simp add: read_irp_def bnd_def read_mem_def ret_def)

lemma case_payload:
  "(case (if c then (case r of None \<Rightarrow> Inl e | Some d \<Rightarrow> Inr (d, s)) else Inr (z, s)) of
      Inl e' \<Rightarrow> Inl e'
    | Inr (d, s3) \<Rightarrow> F d s3)
   = (if c then (case r of None \<Rightarrow> Inl e | Some d \<Rightarrow> F d s) else F z s)"
  by (cases c; cases r; simp)

text \<open>
  Claim C5. For a dispatched \<open>ioctl\<close> request, let \<open>irp\<close> be the IRP read back from guest
  memory after the dispatch. The payload returned is read from guest memory, with the
  length \<open>irp.IoStatus.Information\<close>, exactly when the status of \<open>irp\<close> is not negative and
  the method is one of the four buffering methods: from the system buffer for
  \<open>METHOD_BUFFERED\<close>, from the mapped address of the MDL for \<open>METHOD_IN_DIRECT\<close> and
  \<open>METHOD_OUT_DIRECT\<close>, from the output buffer for \<open>METHOD_NEITHER\<close>; in every other case
  the payload is empty and nothing is read. These are the buffers the driver was given:
  the system buffer is \<open>irp.AssociatedIrp.SystemBuffer\<close>, the output buffer is
  \<open>irp.UserBuffer\<close> under \<open>METHOD_NEITHER\<close>, and the MDL is the one written at
  \<open>irp.MdlAddress\<close>, describing a buffer of the output size. A read outside mapped memory
  raises \<open>UcError\<close>.
\<close>

theorem ioctl_output_payload:
  fixes loc :: ioctl_locals
  assumes "ostype ql = WINDOWS" and "driver_MajorFunction ql IRP_MJ_DEVICE_CONTROL \<noteq> 0"
    and "ioctl_build ql ((devicetype, func, method, access), output_buffer_size, in_buffer)
           (init_state mx) = Inr (loc, s1)"
    and "dispatch ql (driver_MajorFunction ql IRP_MJ_DEVICE_CONTROL) (irp_addr loc) s1 = Inr ((), s2)"
    and "mem_read (mem s2) (irp_addr loc) (sizeof_IRP ql (struct_width ql)) = Some irp_buffer"
    and "irp = IRP_from_buffer ql (struct_width ql) irp_buffer"
  shows "ioctl ql ((devicetype, func, method, access), output_buffer_size, in_buffer) mx =
     (if 0 \<le> Status irp
         \<and> method \<in> {METHOD_BUFFERED, METHOD_IN_DIRECT, METHOD_OUT_DIRECT, METHOD_NEITHER}
      then
        (case mem_read (mem s2)
                (if method = METHOD_BUFFERED then system_buffer_addr loc
                 else if method = METHOD_NEITHER then output_buffer_addr loc
                 else MappedSystemVa (the (mdl_built loc)))
                (Information irp) of
           None \<Rightarrow> Inl (UcError UC_ERR_READ_UNMAPPED)
         | Some output_data \<Rightarrow>
             Inr (ReturnsTriple (Some (Status irp)) (Some (Information irp)) (Some output_data),
                  free_all ql s2))
      else Inr (ReturnsTriple (Some (Status irp)) (Some (Information irp)) (Some []),
                free_all ql s2))
   \<and> SystemBuffer (irp_built loc) = system_buffer_addr loc
   \<and> (method = METHOD_NEITHER \<longrightarrow> UserBuffer (irp_built loc) = output_buffer_addr loc)
   \<and> (method = METHOD_IN_DIRECT \<or> method = METHOD_OUT_DIRECT \<longrightarrow>
        (\<exists>mdl. mdl_built loc = Some mdl
           \<and> HeapAlloc output_buffer_size (MappedSystemVa mdl) \<in> set (trace s1)
           \<and> MemWrite (MdlAddress (irp_built loc)) (bytes_MDL ql (struct_width ql) mdl) \<in> set (trace s1)))"
proof -
  note b = ioctl_build_Inr [OF assms(3)]
  from b have m: "ctl_method loc = method"
    and mdl: "(mdl_built loc \<noteq> None) = (method = METHOD_IN_DIRECT \<or> method = METHOD_OUT_DIRECT)"
    and sb: "SystemBuffer (irp_built loc) = system_buffer_addr loc"
    and ub: "UserBuffer (irp_built loc) = (if method = METHOD_NEITHER then output_buffer_addr loc else 0)"
    by blast+
  have r: "read_irp ql (irp_addr loc) s2 = Inr (irp, s2)"
    using assms(5,6) by (simp add: read_irp_eq)
  have main: "ioctl ql ((devicetype, func, method, access), output_buffer_size, in_buffer) mx =
      (case read_output loc irp s2 of
         Inl e \<Rightarrow> Inl e
       | Inr (output_data, s3) \<Rightarrow>
           Inr (ReturnsTriple (Some (Status irp)) (Some (Information irp)) (Some output_data),
                free_all ql s3))"
    using assms(1,2) by (simp add: ioctl_def bnd_def assms(3) assms(4) r)
  have out: "read_output loc irp s2 =
     (if 0 \<le> Status irp
         \<and> method \<in> {METHOD_BUFFERED, METHOD_IN_DIRECT, METHOD_OUT_DIRECT, METHOD_NEITHER}
      then
        (case mem_read (mem s2)
                (if method = METHOD_BUFFERED then system_buffer_addr loc
                 else if method = METHOD_NEITHER then output_buffer_addr loc
                 else MappedSystemVa (the (mdl_built loc)))
                (Information irp) of
           None \<Rightarrow> Inl (UcError UC_ERR_READ_UNMAPPED)
         | Some output_data \<Rightarrow> Inr (output_data, s2))
      else Inr ([], s2))"
  proof (cases "0 \<le> Status irp")
    case False
    then show ?thesis
      by (simp add: read_output_def ret_def)
  next
    case True
    note defs = METHOD_BUFFERED_def METHOD_IN_DIRECT_def METHOD_OUT_DIRECT_def METHOD_NEITHER_def
    consider (buffered) "method = 0" | (direct) "method = 1 \<or> method = 2" | (neither) "method = 3"
      | (other) "method \<noteq> 0 \<and> method \<noteq> 1 \<and> method \<noteq> 2 \<and> method \<noteq> 3"
      by blast
    then show ?thesis
    proof cases
      case buffered
      with True show ?thesis
        by (simp add: read_output_def m defs bnd_def ret_def read_mem_def split: option.splits)
    next
      case direct
      with mdl obtain d where "mdl_built loc = Some d"
        by (auto simp: defs)
      with True direct show ?thesis
        by (auto simp: read_output_def m defs bnd_def ret_def read_mem_def split: option.splits)
    next
      case neither
      with True show ?thesis
        by (simp add: read_output_def m defs bnd_def ret_def read_mem_def split: option.splits)
    next
      case other
      with True show ?thesis
        by (simp add: read_output_def m defs bnd_def ret_def read_mem_def)
    qed
  qed
  have first: "ioctl ql ((devicetype, func, method, access), output_buffer_size, in_buffer) mx =
     (if 0 \<le> Status irp
         \<and> method \<in> {METHOD_BUFFERED, METHOD_IN_DIRECT, METHOD_OUT_DIRECT, METHOD_NEITHER}
      then
        (case mem_read (mem s2)
                (if method = METHOD_BUFFERED then system_buffer_addr loc
                 else if method = METHOD_NEITHER then output_buffer_addr loc
                 else MappedSystemVa (the (mdl_built loc)))
                (Information irp) of
           None \<Rightarrow> Inl (UcError UC_ERR_READ_UNMAPPED)
         | Some output_data \<Rightarrow>
             Inr (ReturnsTriple (Some (Status irp)) (Some (Information irp)) (Some output_data),
                  free_all ql s2))
      else Inr (ReturnsTriple (Some (Status irp)) (Some (Information irp)) (Some []),
                free_all ql s2))"
    unfolding main out by (rule case_payload)
  have direct: "\<exists>mdl. mdl_built loc = Some mdl
           \<and> HeapAlloc output_buffer_size (MappedSystemVa mdl) \<in> set (trace s1)
           \<and> MemWrite (MdlAddress (irp_built loc)) (bytes_MDL ql (struct_width ql) mdl) \<in> set (trace s1)"
    if "method = METHOD_IN_DIRECT \<or> method = METHOD_OUT_DIRECT"
  proof -
    from that mdl obtain d where d: "mdl_built loc = Some d"
      by auto
    with b show ?thesis
      by auto
  qed
  from first sb ub direct show ?thesis
    by simp
qed

theorem ioctl_output_payload_witness:
  "map_sum id fst demo_ioctl_result = Inr (ReturnsTriple (Some 0) (Some 2) (Some [0x41, 0x42]))
   \<and> map_sum id fst (ioctl demo_ql_failing demo_ioctl_params demo_machine)
       = Inr (ReturnsTriple (Some (- 0x3FFFFFFF)) (Some 2) (Some []))"
proof -
  let ?loc = "fst (projr demo_ioctl_built)"
  let ?s1 = "snd (projr demo_ioctl_built)"
  let ?s2 = "snd (projr demo_ioctl_dispatched)"
  let ?irp = "IRP_from_buffer demo_ql (struct_width demo_ql) demo_ioctl_irp_buffer"
  have cfg: "ostype demo_ql = WINDOWS" "driver_MajorFunction demo_ql IRP_MJ_DEVICE_CONTROL \<noteq> 0"
    "driver_MajorFunction demo_ql IRP_MJ_DEVICE_CONTROL = 0x402000"
    "sizeof_IRP demo_ql (struct_width demo_ql) = 24"
    by (simp_all add: demo_ql_def IRP_MJ_DEVICE_CONTROL_def IRP_MJ_WRITE_def)
  have "isl demo_ioctl_built = False"
    unfolding demo_ioctl_built_def demo_ioctl_params_def by code_simp
  then have b: "ioctl_build demo_ql ((0x22, 0x800, METHOD_BUFFERED, 0), 4, [0x41, 0x42, 0x43])
                  (init_state demo_machine) = Inr (?loc, ?s1)"
    unfolding demo_ioctl_built_def demo_ioctl_params_def by (metis isr_eq prod.collapse)
  have "isl demo_ioctl_dispatched = False"
    unfolding demo_ioctl_dispatched_def demo_ioctl_built_def demo_ioctl_params_def by code_simp
  then have d: "dispatch demo_ql (driver_MajorFunction demo_ql IRP_MJ_DEVICE_CONTROL) (irp_addr ?loc) ?s1
                  = Inr ((), ?s2)"
    unfolding cfg demo_ioctl_dispatched_def by (metis isr_eq prod.collapse old.unit.exhaust)
  have "mem_read (mem ?s2) (irp_addr ?loc) 24 \<noteq> None"
    unfolding demo_ioctl_dispatched_def demo_ioctl_built_def demo_ioctl_params_def by code_simp
  then have r: "mem_read (mem ?s2) (irp_addr ?loc) (sizeof_IRP demo_ql (struct_width demo_ql))
                  = Some demo_ioctl_irp_buffer"
    unfolding cfg demo_ioctl_irp_buffer_def by simp
  have st: "Status ?irp = 0" and inf: "Information ?irp = 2"
    unfolding demo_ioctl_irp_buffer_def demo_ioctl_dispatched_def demo_ioctl_built_def
      demo_ioctl_params_def by code_simp+
  have payload: "mem_read (mem ?s2) (system_buffer_addr ?loc) 2 = Some [0x41, 0x42]"
    unfolding demo_ioctl_dispatched_def demo_ioctl_built_def demo_ioctl_params_def by code_simp
  from ioctl_output_payload [OF cfg(1) cfg(2) b d r refl]
  have "ioctl demo_ql ((0x22, 0x800, METHOD_BUFFERED, 0), 4, [0x41, 0x42, 0x43]) demo_machine
          = Inr (ReturnsTriple (Some 0) (Some 2) (Some [0x41, 0x42]), free_all demo_ql ?s2)"
    by (simp add: st inf payload)
  then have ok: "map_sum id fst demo_ioctl_result = Inr (ReturnsTriple (Some 0) (Some 2) (Some [0x41, 0x42]))"
    by (simp add: demo_ioctl_result_def demo_ioctl_params_def)
  have failing: "map_sum id fst (ioctl demo_ql_failing demo_ioctl_params demo_machine)
       = Inr (ReturnsTriple (Some (- 0x3FFFFFFF)) (Some 2) (Some []))"
    unfolding demo_ioctl_params_def by code_simp
  from ok failing show ?thesis
    by simp
qed

end
